theory Spec2Isabelle
  imports Main "HOL-Library.Word" "HOL-Library.Monad_Syntax"
begin

unbundle bit_operations_syntax

section \<open>The RISC-V debug transport driver (src/target/riscv.c)\<close>

text \<open>
  The driver of \<^verbatim>\<open>riscv.c\<close> talks to a hart through the JTAG TAP. Its functions are
  translated below with the state they read and write passed explicitly; only the scan
  handler \<^verbatim>\<open>riscv_jtag_handler\<close>, which builds the state of a newly found hart and
  registers the entry points, is left out.

  A call has the value \<open>Some (result, state)\<close> when it returns to its caller, and
  \<open>None\<close> when it does not: the retry loop of the link, the completion poll of the
  executor and the trigger walk have no bound in the source, a failed \<^verbatim>\<open>assert\<close>
  aborts, and a read past the end of an array is undefined in C.
\<close>

subsection \<open>Constants\<close>

definition RISCV_IR_DTMCONTROL :: "32 word" where "RISCV_IR_DTMCONTROL = 0x10"
definition RISCV_IR_DBUS :: "32 word" where "RISCV_IR_DBUS = 0x11"

definition RISCV_DTMCONTROL_DBUSRESET :: "64 word" where
  "RISCV_DTMCONTROL_DBUSRESET = push_bit 16 1"

definition RISCV_DBUS_NOP :: "64 word" where "RISCV_DBUS_NOP = 0"
definition RISCV_DBUS_READ :: "64 word" where "RISCV_DBUS_READ = 1"
definition RISCV_DBUS_WRITE :: "64 word" where "RISCV_DBUS_WRITE = 2"

definition RISCV_DMCONTROL :: "32 word" where "RISCV_DMCONTROL = 0x10"
definition RISCV_DMINFO :: "32 word" where "RISCV_DMINFO = 0x11"

definition RISCV_DMCONTROL_INTERRUPT :: "64 word" where
  "RISCV_DMCONTROL_INTERRUPT = push_bit 33 1"
definition RISCV_DMCONTROL_HALTNOT :: "64 word" where
  "RISCV_DMCONTROL_HALTNOT = push_bit 32 1"

definition RISCV_TSELECT :: "16 word" where "RISCV_TSELECT = 0x7a0"
definition RISCV_MCONTROL :: "16 word" where "RISCV_MCONTROL = 0x7a1"
definition RISCV_TDATA2 :: "16 word" where "RISCV_TDATA2 = 0x7a2"

definition RISCV_DCSR :: "16 word" where "RISCV_DCSR = 0x7b0"
definition RISCV_DPC :: "16 word" where "RISCV_DPC = 0x7b1"
definition RISCV_DSCRATCH :: "16 word" where "RISCV_DSCRATCH = 0x7b2"

definition RISCV_MCONTROL_DMODE :: "32 word" where
  "RISCV_MCONTROL_DMODE = push_bit (32 - 5) 1"
definition RISCV_MCONTROL_ENABLE_MASK :: "32 word" where
  "RISCV_MCONTROL_ENABLE_MASK = push_bit 3 0xf"
definition RISCV_MCONTROL_LOAD :: "32 word" where
  "RISCV_MCONTROL_LOAD = push_bit 0 1"
definition RISCV_MCONTROL_STORE :: "32 word" where
  "RISCV_MCONTROL_STORE = push_bit 1 1"
definition RISCV_MCONTROL_EXECUTE :: "32 word" where
  "RISCV_MCONTROL_EXECUTE = push_bit 2 1"
definition RISCV_MCONTROL_ACTION_DEBUG :: "32 word" where
  "RISCV_MCONTROL_ACTION_DEBUG = push_bit 12 1"

subsection \<open>The JTAG TAP and the driver state\<close>

text \<open>
  The three calls the driver makes into the JTAG layer, in the order it makes them, are
  the observable I/O of the driver.
\<close>

datatype jtag_op =
    WriteIR "32 word"
  | ShiftDR nat "64 word"
  | TmsSeq "32 word" nat

text \<open>
  The calls of the link interface (\<^verbatim>\<open>riscv_dtm_write\<close> with its address and data,
  \<^verbatim>\<open>riscv_dtm_read\<close> with its address and the data it returned), in call order.
\<close>

datatype dbus_op =
    DbusWrite "32 word" "64 word"
  | DbusRead "32 word" "64 word"

text \<open>
  \<^verbatim>\<open>struct riscv_dtm\<close>. The pointer \<^verbatim>\<open>dev\<close> is replaced by what it stands for: the
  history \<open>jtag\<close> of the operations performed on the device. \<open>dbus_log\<close> is the
  history of the link calls; no function reads it.
\<close>

record riscv_dtm =
  version :: "8 word"
  abits :: "8 word"
  idle :: "8 word"
  dramsize :: "8 word"
  error :: bool
  lastdbus :: "64 word"
  halt_requested :: bool
  jtag :: "jtag_op list"
  dbus_log :: "dbus_op list"

text \<open>
  The device at the other end of the TAP is a parameter: the word it shifts out in a DR
  scan, as a function of every JTAG operation so far, the scan itself included.
\<close>

type_synonym device = "jtag_op list \<Rightarrow> 64 word"

text \<open>
  Modelled from the spec: \<^verbatim>\<open>jtag_dev_write_ir\<close>, \<^verbatim>\<open>jtag_dev_shift_dr\<close> and
  \<^verbatim>\<open>jtagtap_tms_seq\<close> belong to the JTAG layer, which is not part of the driver
  ("select IR register, shift a DR of N bits (with parallel in/out buffers), and emit a
  run of TMS=0 cycles through run-test/idle"). The in and out buffers of a scan are the
  64-bit variables the driver passes; a scan longer than 64 bits is recorded with its
  length, and the bits past the variable are not modelled.
\<close>

definition jtag_dev_write_ir :: "riscv_dtm \<Rightarrow> 32 word \<Rightarrow> riscv_dtm" where
  "jtag_dev_write_ir s ir = s\<lparr>jtag := jtag s @ [WriteIR ir]\<rparr>"

definition jtag_dev_shift_dr ::
  "device \<Rightarrow> riscv_dtm \<Rightarrow> 64 word \<Rightarrow> nat \<Rightarrow> 64 word \<times> riscv_dtm" where
  "jtag_dev_shift_dr dev s dout ticks =
     (dev (jtag s @ [ShiftDR ticks dout]), s\<lparr>jtag := jtag s @ [ShiftDR ticks dout]\<rparr>)"

definition jtagtap_tms_seq :: "riscv_dtm \<Rightarrow> 32 word \<Rightarrow> nat \<Rightarrow> riscv_dtm" where
  "jtagtap_tms_seq s MS ticks = s\<lparr>jtag := jtag s @ [TmsSeq MS ticks]\<rparr>"

subsection \<open>The DTM link\<close>

definition riscv_dtm_reset :: "device \<Rightarrow> riscv_dtm \<Rightarrow> riscv_dtm" where
  "riscv_dtm_reset dev s =
     snd (jtag_dev_shift_dr dev (jtag_dev_write_ir s RISCV_IR_DTMCONTROL)
            RISCV_DTMCONTROL_DBUSRESET 32)"

text \<open>The body of \<^verbatim>\<open>riscv_dtm_low_access\<close> from the label \<^verbatim>\<open>retry\<close> on.\<close>

partial_function (option) riscv_dtm_low_access_retry ::
  "device \<Rightarrow> riscv_dtm \<Rightarrow> 64 word \<Rightarrow> (64 word \<times> riscv_dtm) option" where
  "riscv_dtm_low_access_retry dev s dbus =
     (case jtag_dev_shift_dr dev s dbus (36 + unat (abits s)) of (ret, s1) \<Rightarrow>
        if ret AND 3 = 3 then
          riscv_dtm_low_access_retry dev
            (jtagtap_tms_seq
               (snd (jtag_dev_shift_dr dev
                       (jtag_dev_write_ir (riscv_dtm_reset dev s1) RISCV_IR_DBUS)
                       (lastdbus s1) (unat (abits s1) + 36)))
               0 (unat (idle s1)))
            dbus
        else if ret AND 3 = 0 then
          Some (drop_bit 2 ret AND 0x3ffffffff,
                jtagtap_tms_seq (s1\<lparr>lastdbus := dbus\<rparr>) 0 (unat (idle s1)))
        else
          Some (0, s1\<lparr>error := True\<rparr>))"

declare riscv_dtm_low_access_retry.simps [code]

definition riscv_dtm_low_access ::
  "device \<Rightarrow> riscv_dtm \<Rightarrow> 64 word \<Rightarrow> (64 word \<times> riscv_dtm) option" where
  "riscv_dtm_low_access dev s dbus =
     (if error s then Some (0, s) else riscv_dtm_low_access_retry dev s dbus)"

definition riscv_dtm_write ::
  "device \<Rightarrow> riscv_dtm \<Rightarrow> 32 word \<Rightarrow> 64 word \<Rightarrow> riscv_dtm option" where
  "riscv_dtm_write dev s addr data =
     do {
       (ret, s1) \<leftarrow> riscv_dtm_low_access dev s
                      (push_bit 36 (ucast addr) OR push_bit 2 (data AND 0x3ffffffff)
                         OR RISCV_DBUS_WRITE);
       Some (s1\<lparr>dbus_log := dbus_log s1 @ [DbusWrite addr data]\<rparr>)
     }"

definition riscv_dtm_read ::
  "device \<Rightarrow> riscv_dtm \<Rightarrow> 32 word \<Rightarrow> (64 word \<times> riscv_dtm) option" where
  "riscv_dtm_read dev s addr =
     do {
       (armed, s1) \<leftarrow> riscv_dtm_low_access dev s
                        (push_bit 36 (ucast addr) OR RISCV_DBUS_READ);
       (ret, s2) \<leftarrow> riscv_dtm_low_access dev s1 RISCV_DBUS_NOP;
       Some (ret, s2\<lparr>dbus_log := dbus_log s2 @ [DbusRead addr ret]\<rparr>)
     }"

subsection \<open>The Debug RAM executor\<close>

text \<open>\<^verbatim>\<open>xs[i]\<close> of a C array: it has a value only inside the array.\<close>

definition array_at :: "'a list \<Rightarrow> int \<Rightarrow> 'a option" where
  "array_at xs i = (if 0 \<le> i \<and> i < int (length xs) then Some (xs ! nat i) else None)"

text \<open>The \<^verbatim>\<open>for\<close> loop of \<^verbatim>\<open>riscv_debug_ram_exec\<close>; it returns the final \<^verbatim>\<open>i\<close>.\<close>

function riscv_debug_ram_exec_stage ::
  "device \<Rightarrow> riscv_dtm \<Rightarrow> 32 word list \<Rightarrow> int \<Rightarrow> int \<Rightarrow> (int \<times> riscv_dtm) option" where
  "riscv_debug_ram_exec_stage dev s code count i =
     (if i < count - 1 then
        do {
          c \<leftarrow> array_at code i;
          s1 \<leftarrow> riscv_dtm_write dev s (word_of_int i) (ucast c);
          riscv_debug_ram_exec_stage dev s1 code count (i + 1)
        }
      else Some (i, s))"
  by pat_completeness auto
termination
  by (relation "measure (\<lambda>(dev, s, code, count, i). nat (count - 1 - i))") auto

declare riscv_debug_ram_exec_stage.simps [simp del]

text \<open>The \<^verbatim>\<open>do ... while\<close> loop of \<^verbatim>\<open>riscv_debug_ram_exec\<close>.\<close>

partial_function (option) riscv_debug_ram_exec_poll ::
  "device \<Rightarrow> riscv_dtm \<Rightarrow> int \<Rightarrow> (64 word \<times> riscv_dtm) option" where
  "riscv_debug_ram_exec_poll dev s count =
     do {
       (ret, s1) \<leftarrow> riscv_dtm_read dev s (word_of_int count);
       if ret AND RISCV_DMCONTROL_INTERRUPT \<noteq> 0
       then riscv_debug_ram_exec_poll dev s1 count
       else Some (ret, s1)
     }"

declare riscv_debug_ram_exec_poll.simps [code]

definition riscv_debug_ram_exec ::
  "device \<Rightarrow> riscv_dtm \<Rightarrow> 32 word list \<Rightarrow> int \<Rightarrow> (32 word \<times> riscv_dtm) option" where
  "riscv_debug_ram_exec dev s code count =
     do {
       (i, s1) \<leftarrow> riscv_debug_ram_exec_stage dev s code count 0;
       c \<leftarrow> array_at code i;
       s2 \<leftarrow> riscv_dtm_write dev s1 (word_of_int i) (ucast c OR RISCV_DMCONTROL_INTERRUPT);
       (ret, s3) \<leftarrow> riscv_debug_ram_exec_poll dev s2 count;
       Some (ucast ret, s3)
     }"

subsection \<open>The code stubs\<close>

definition riscv_mem_read32 ::
  "device \<Rightarrow> riscv_dtm \<Rightarrow> 32 word \<Rightarrow> (32 word \<times> riscv_dtm) option" where
  "riscv_mem_read32 dev s addr =
     riscv_debug_ram_exec dev s [0x41002403, 0x42483, 0x40902a23, 0x3f80006f, addr] 5"

definition riscv_mem_write32 ::
  "device \<Rightarrow> riscv_dtm \<Rightarrow> 32 word \<Rightarrow> 32 word \<Rightarrow> riscv_dtm option" where
  "riscv_mem_write32 dev s addr val =
     do {
       (ret, s1) \<leftarrow> riscv_debug_ram_exec dev s
                      [0x41002403, 0x41402483, 0x942023, 0x3f80006f, addr, val] 5;
       Some s1
     }"

definition riscv_gpreg_read ::
  "device \<Rightarrow> riscv_dtm \<Rightarrow> 8 word \<Rightarrow> (32 word \<times> riscv_dtm) option" where
  "riscv_gpreg_read dev s reg =
     (let ram = [0x40002423, 0x4000006f];
          ram = ram[0 := ram ! 0 OR push_bit 20 (ucast reg)]
      in riscv_debug_ram_exec dev s ram 2)"

definition riscv_csreg_read ::
  "device \<Rightarrow> riscv_dtm \<Rightarrow> 16 word \<Rightarrow> (32 word \<times> riscv_dtm) option" where
  "riscv_csreg_read dev s csr =
     (let ram = [0x00002473, 0x40802623, 0x3fc0006f];
          ram = ram[0 := ram ! 0 OR push_bit 20 (ucast csr)]
      in riscv_debug_ram_exec dev s ram 3)"

definition riscv_csreg_write ::
  "device \<Rightarrow> riscv_dtm \<Rightarrow> 16 word \<Rightarrow> 32 word \<Rightarrow> riscv_dtm option" where
  "riscv_csreg_write dev s csr val =
     (let ram = [0x40c02403, 0x00041073, 0x3fc0006f, val];
          ram = ram[1 := ram ! 1 OR push_bit 20 (ucast csr)]
      in do { (ret, s1) \<leftarrow> riscv_debug_ram_exec dev s ram 4; Some s1 })"

definition riscv_gpreg_write ::
  "device \<Rightarrow> riscv_dtm \<Rightarrow> 8 word \<Rightarrow> 32 word \<Rightarrow> riscv_dtm option" where
  "riscv_gpreg_write dev s reg val =
     (let ram = [0x40002423, 0x4000006f, val];
          ram = ram[0 := ram ! 0 OR push_bit 7 (ucast reg)]
      in do { (ret, s1) \<leftarrow> riscv_debug_ram_exec dev s ram 3; Some s1 })"

subsection \<open>The target entry points\<close>

definition riscv_halt_request :: "device \<Rightarrow> riscv_dtm \<Rightarrow> riscv_dtm option" where
  "riscv_halt_request dev s =
     do {
       (ret, s1) \<leftarrow> riscv_debug_ram_exec dev s [0x7b046073, 0x4000006f] 2;
       Some (s1\<lparr>halt_requested := True\<rparr>)
     }"

definition riscv_halt_resume :: "device \<Rightarrow> riscv_dtm \<Rightarrow> bool \<Rightarrow> riscv_dtm option" where
  "riscv_halt_resume dev s step =
     (let ram = [0x7b006073, 0x7b047073, 0x3fc0006f];
          ram = (if step then ram[0 := ram ! 0 OR push_bit 15 4]
                 else ram[1 := ram ! 1 OR push_bit 15 4])
      in do {
           (ret, s1) \<leftarrow> riscv_debug_ram_exec dev s ram 3;
           Some (s1\<lparr>halt_requested := False\<rparr>)
         })"

text \<open>
  The \<^verbatim>\<open>while\<close> loop of \<^verbatim>\<open>riscv_mem_read\<close>; the words stored through \<^verbatim>\<open>d\<close> are
  returned in order. \<^verbatim>\<open>len\<close> is a multiple of 4 here (the function asserts it).
\<close>

function riscv_mem_read_loop ::
  "device \<Rightarrow> riscv_dtm \<Rightarrow> 32 word \<Rightarrow> nat \<Rightarrow> (32 word list \<times> riscv_dtm) option" where
  "riscv_mem_read_loop dev s src len =
     (if len \<noteq> 0 then
        do {
          (v, s1) \<leftarrow> riscv_mem_read32 dev s src;
          (vs, s2) \<leftarrow> riscv_mem_read_loop dev s1 (src + 4) (len - 4);
          Some (v # vs, s2)
        }
      else Some ([], s))"
  by pat_completeness auto
termination
  by (relation "measure (\<lambda>(dev, s, src, len). len)") auto

declare riscv_mem_read_loop.simps [simp del]

definition riscv_mem_read ::
  "device \<Rightarrow> riscv_dtm \<Rightarrow> 32 word \<Rightarrow> nat \<Rightarrow> (32 word list \<times> riscv_dtm) option" where
  "riscv_mem_read dev s src len =
     (if src AND 3 \<noteq> 0 then None
      else if len mod 4 \<noteq> 0 then None
      else riscv_mem_read_loop dev s src len)"

text \<open>
  The \<^verbatim>\<open>while\<close> loop of \<^verbatim>\<open>riscv_mem_write\<close>; \<^verbatim>\<open>k\<close> counts the words consumed
  through \<^verbatim>\<open>s\<close>.
\<close>

function riscv_mem_write_loop ::
  "device \<Rightarrow> riscv_dtm \<Rightarrow> 32 word \<Rightarrow> 32 word list \<Rightarrow> int \<Rightarrow> nat \<Rightarrow> riscv_dtm option" where
  "riscv_mem_write_loop dev s dest src k len =
     (if len \<noteq> 0 then
        do {
          v \<leftarrow> array_at src k;
          s1 \<leftarrow> riscv_mem_write32 dev s dest v;
          riscv_mem_write_loop dev s1 (dest + 4) src (k + 1) (len - 4)
        }
      else Some s)"
  by pat_completeness auto
termination
  by (relation "measure (\<lambda>(dev, s, dest, src, k, len). len)") auto

declare riscv_mem_write_loop.simps [simp del]

definition riscv_mem_write ::
  "device \<Rightarrow> riscv_dtm \<Rightarrow> 32 word \<Rightarrow> 32 word list \<Rightarrow> nat \<Rightarrow> riscv_dtm option" where
  "riscv_mem_write dev s dest src len =
     (if dest AND 3 \<noteq> 0 then None
      else if len mod 4 \<noteq> 0 then None
      else riscv_mem_write_loop dev s dest src 0 len)"

definition riscv_reset :: "device \<Rightarrow> riscv_dtm \<Rightarrow> riscv_dtm option" where
  "riscv_reset dev s = riscv_csreg_write dev s RISCV_DCSR (push_bit 29 1)"

definition riscv_check_error :: "device \<Rightarrow> riscv_dtm \<Rightarrow> bool \<times> riscv_dtm" where
  "riscv_check_error dev s =
     (if error s then (True, (riscv_dtm_reset dev s)\<lparr>error := False\<rparr>)
      else (False, s))"

text \<open>
  \<^verbatim>\<open>target_halt_request\<close> and \<^verbatim>\<open>target_halt_resume\<close> of the generic layer call the
  entries the driver registers, \<^verbatim>\<open>riscv_halt_request\<close> and \<^verbatim>\<open>riscv_halt_resume\<close>.
\<close>

definition riscv_attach :: "device \<Rightarrow> riscv_dtm \<Rightarrow> (bool \<times> riscv_dtm) option" where
  "riscv_attach dev s = do { s1 \<leftarrow> riscv_halt_request dev s; Some (True, s1) }"

definition riscv_detach :: "device \<Rightarrow> riscv_dtm \<Rightarrow> riscv_dtm option" where
  "riscv_detach dev s = riscv_halt_resume dev s False"

text \<open>
  \<^verbatim>\<open>riscv_reg_read\<close>: \<open>val\<close> is the word the caller's buffer holds before the call;
  the result is the returned size and the word the buffer holds after it.
\<close>

definition riscv_reg_read ::
  "device \<Rightarrow> riscv_dtm \<Rightarrow> int \<Rightarrow> 32 word \<Rightarrow> ((int \<times> 32 word) \<times> riscv_dtm) option" where
  "riscv_reg_read dev s reg val =
     (if reg = 0 then Some ((4, 0), s)
      else if reg = 8 then
        do { (v, s1) \<leftarrow> riscv_csreg_read dev s RISCV_DSCRATCH; Some ((4, v), s1) }
      else if reg = 9 then
        do { (v, s1) \<leftarrow> riscv_dtm_read dev s (ucast (dramsize s)); Some ((4, ucast v), s1) }
      else if reg = 32 then
        do { (v, s1) \<leftarrow> riscv_csreg_read dev s RISCV_DPC; Some ((4, v), s1) }
      else if 65 \<le> reg \<and> reg \<le> 65 + 4095 then
        do { (v, s1) \<leftarrow> riscv_csreg_read dev s (word_of_int (reg - 65)); Some ((4, v), s1) }
      else if (1 \<le> reg \<and> reg \<le> 7) \<or> (10 \<le> reg \<and> reg \<le> 31) then
        do { (v, s1) \<leftarrow> riscv_gpreg_read dev s (word_of_int reg); Some ((4, v), s1) }
      else Some ((4, val), s))"

text \<open>The \<^verbatim>\<open>switch\<close> of \<^verbatim>\<open>riscv_regs_write\<close>, for the index \<^verbatim>\<open>i\<close>.\<close>

definition riscv_regs_write_switch ::
  "device \<Rightarrow> riscv_dtm \<Rightarrow> 32 word list \<Rightarrow> int \<Rightarrow> riscv_dtm option" where
  "riscv_regs_write_switch dev s reg i =
     (if i = 0 then Some s
      else if i = 8 then
        do { v \<leftarrow> array_at reg i; riscv_csreg_write dev s RISCV_DSCRATCH v }
      else if i = 9 then
        do { v \<leftarrow> array_at reg i; riscv_dtm_write dev s (ucast (dramsize s)) (ucast v) }
      else if i = 32 then
        do { v \<leftarrow> array_at reg i; riscv_csreg_write dev s RISCV_DPC v }
      else
        do { v \<leftarrow> array_at reg i; riscv_gpreg_write dev s (word_of_int i) v })"

function riscv_regs_write_loop ::
  "device \<Rightarrow> riscv_dtm \<Rightarrow> 32 word list \<Rightarrow> int \<Rightarrow> riscv_dtm option" where
  "riscv_regs_write_loop dev s reg i =
     (if i < 33 then
        do {
          s1 \<leftarrow> riscv_regs_write_switch dev s reg i;
          riscv_regs_write_loop dev s1 reg (i + 1)
        }
      else Some s)"
  by pat_completeness auto
termination
  by (relation "measure (\<lambda>(dev, s, reg, i). nat (33 - i))") auto

declare riscv_regs_write_loop.simps [simp del]

definition riscv_regs_write :: "device \<Rightarrow> riscv_dtm \<Rightarrow> 32 word list \<Rightarrow> riscv_dtm option" where
  "riscv_regs_write dev s reg = riscv_regs_write_loop dev s reg 0"

text \<open>
  Modelled from the spec: \<^verbatim>\<open>enum target_halt_reason\<close> is declared by the generic
  target layer, which is not part of the driver. The driver returns five of its values:
  RUNNING, ERROR, REQUEST, STEPPING and BREAKPOINT.
\<close>

datatype target_halt_reason =
    TARGET_HALT_RUNNING
  | TARGET_HALT_ERROR
  | TARGET_HALT_REQUEST
  | TARGET_HALT_STEPPING
  | TARGET_HALT_BREAKPOINT
  | TARGET_HALT_WATCHPOINT
  | TARGET_HALT_FAULT

definition riscv_halt_poll ::
  "device \<Rightarrow> riscv_dtm \<Rightarrow> (target_halt_reason \<times> riscv_dtm) option" where
  "riscv_halt_poll dev s =
     do {
       (dmcontrol, s1) \<leftarrow> riscv_dtm_read dev s RISCV_DMCONTROL;
       if \<not> halt_requested s1 \<and> dmcontrol AND RISCV_DMCONTROL_HALTNOT = 0
       then Some (TARGET_HALT_RUNNING, s1)
       else
         do {
           (dcsr, s2) \<leftarrow> riscv_csreg_read dev s1 RISCV_DCSR;
           let cause = (ucast (drop_bit 6 dcsr AND 7) :: 8 word) in
           if cause = 0 then Some (TARGET_HALT_RUNNING, s2)
           else if cause = 1 \<or> cause = 2 then Some (TARGET_HALT_BREAKPOINT, s2)
           else if cause = 3 then Some (TARGET_HALT_REQUEST, s2)
           else if cause = 4 then Some (TARGET_HALT_STEPPING, s2)
           else if cause = 5 then Some (TARGET_HALT_REQUEST, s2)
           else Some (TARGET_HALT_ERROR, s2)
         }
     }"

subsection \<open>The trigger module\<close>

text \<open>
  Modelled from the spec: \<^verbatim>\<open>enum target_breakwatch\<close> and \<^verbatim>\<open>struct breakwatch\<close> are
  declared by the generic target layer, which is not part of the driver. The driver
  supports four kinds of request (execute, store, load, load or store) and refuses any
  other; of the record it reads \<^verbatim>\<open>type\<close> and \<^verbatim>\<open>addr\<close> and keeps the allocated index
  in \<^verbatim>\<open>reserved[0]\<close>.
\<close>

datatype target_breakwatch =
    TARGET_BREAK_SOFT
  | TARGET_BREAK_HARD
  | TARGET_WATCH_WRITE
  | TARGET_WATCH_READ
  | TARGET_WATCH_ACCESS

record breakwatch =
  bw_type :: target_breakwatch
  bw_addr :: "32 word"
  bw_reserved :: "32 word list"

text \<open>
  The \<^verbatim>\<open>for (i = 0; ; i++)\<close> loop of \<^verbatim>\<open>riscv_breakwatch_set\<close>, entered with \<^verbatim>\<open>i\<close>:
  \<open>Some i\<close> when the loop is left by \<^verbatim>\<open>break\<close>, \<open>None\<close> when it is left by
  \<^verbatim>\<open>return -1\<close>.
\<close>

partial_function (option) riscv_breakwatch_set_walk ::
  "device \<Rightarrow> riscv_dtm \<Rightarrow> 32 word \<Rightarrow> (32 word option \<times> riscv_dtm) option" where
  "riscv_breakwatch_set_walk dev s i =
     do {
       s1 \<leftarrow> riscv_csreg_write dev s RISCV_TSELECT i;
       (readback, s2) \<leftarrow> riscv_csreg_read dev s1 RISCV_TSELECT;
       if readback \<noteq> i then Some (None, s2)
       else
         do {
           (tdata1, s3) \<leftarrow> riscv_csreg_read dev s2 RISCV_MCONTROL;
           let type = (ucast (drop_bit (32 - 4) tdata1 AND 0xf) :: 8 word) in
           if type = 0 then Some (None, s3)
           else if type = 2 \<and> tdata1 AND RISCV_MCONTROL_ENABLE_MASK = 0
           then Some (Some i, s3)
           else riscv_breakwatch_set_walk dev s3 (i + 1)
         }
     }"

declare riscv_breakwatch_set_walk.simps [code]

text \<open>The \<^verbatim>\<open>switch (bw->type)\<close> of \<^verbatim>\<open>riscv_breakwatch_set\<close>: \<open>None\<close> is its \<^verbatim>\<open>default\<close>.\<close>

definition riscv_breakwatch_mcontrol :: "target_breakwatch \<Rightarrow> 32 word option" where
  "riscv_breakwatch_mcontrol ty =
     (let mcontrol = RISCV_MCONTROL_DMODE OR RISCV_MCONTROL_ACTION_DEBUG
                       OR RISCV_MCONTROL_ENABLE_MASK
      in case ty of
           TARGET_BREAK_HARD \<Rightarrow> Some (mcontrol OR RISCV_MCONTROL_EXECUTE)
         | TARGET_WATCH_WRITE \<Rightarrow> Some (mcontrol OR RISCV_MCONTROL_STORE)
         | TARGET_WATCH_READ \<Rightarrow> Some (mcontrol OR RISCV_MCONTROL_LOAD)
         | TARGET_WATCH_ACCESS \<Rightarrow>
             Some (mcontrol OR (RISCV_MCONTROL_LOAD OR RISCV_MCONTROL_STORE))
         | TARGET_BREAK_SOFT \<Rightarrow> None)"

definition riscv_breakwatch_set ::
  "device \<Rightarrow> riscv_dtm \<Rightarrow> breakwatch \<Rightarrow> ((int \<times> breakwatch) \<times> riscv_dtm) option" where
  "riscv_breakwatch_set dev s bw =
     (case riscv_breakwatch_mcontrol (bw_type bw) of
        None \<Rightarrow> Some ((1, bw), s)
      | Some mcontrol \<Rightarrow>
          do {
            (tselect_saved, s1) \<leftarrow> riscv_csreg_read dev s RISCV_TSELECT;
            (found, s2) \<leftarrow> riscv_breakwatch_set_walk dev s1 0;
            case found of
              None \<Rightarrow> Some ((- 1, bw), s2)
            | Some i \<Rightarrow>
                do {
                  s3 \<leftarrow> riscv_csreg_write dev s2 RISCV_MCONTROL mcontrol;
                  s4 \<leftarrow> riscv_csreg_write dev s3 RISCV_TDATA2 (bw_addr bw);
                  s5 \<leftarrow> riscv_csreg_write dev s4 RISCV_TSELECT tselect_saved;
                  Some ((0, bw\<lparr>bw_reserved := (bw_reserved bw)[0 := i]\<rparr>), s5)
                }
          })"

definition riscv_breakwatch_clear ::
  "device \<Rightarrow> riscv_dtm \<Rightarrow> breakwatch \<Rightarrow> (int \<times> riscv_dtm) option" where
  "riscv_breakwatch_clear dev s bw =
     do {
       i \<leftarrow> array_at (bw_reserved bw) 0;
       (tselect_saved, s1) \<leftarrow> riscv_csreg_read dev s RISCV_TSELECT;
       s2 \<leftarrow> riscv_csreg_write dev s1 RISCV_TSELECT i;
       s3 \<leftarrow> riscv_csreg_write dev s2 RISCV_MCONTROL 0;
       s4 \<leftarrow> riscv_csreg_write dev s3 RISCV_TSELECT tselect_saved;
       Some (0, s4)
     }"

subsection \<open>Notions used in the statements\<close>

text \<open>
  A device settles after \<open>L\<close> JTAG operations when from then on it never answers a scan
  with status 3 (retry) and never with the INTERRUPT bit (bit 33 of the data field, bit
  35 of the scan) set: the bus stops being busy and the hart finishes its stub.
\<close>

definition settles :: "device \<Rightarrow> nat \<Rightarrow> bool" where
  "settles dev L \<longleftrightarrow> (\<forall>h. L \<le> length h \<longrightarrow> dev h AND 3 \<noteq> 3 \<and> \<not> bit (dev h) 35)"

text \<open>What one pass through the retry loop, once it returns, has done to the state.\<close>

definition link_post :: "device \<Rightarrow> nat \<Rightarrow> riscv_dtm \<Rightarrow> 64 word \<Rightarrow> riscv_dtm \<Rightarrow> bool" where
  "link_post dev L s r s' \<longleftrightarrow>
     version s' = version s \<and> abits s' = abits s \<and> idle s' = idle s \<and>
     dramsize s' = dramsize s \<and> halt_requested s' = halt_requested s \<and>
     dbus_log s' = dbus_log s \<and> length (jtag s) \<le> length (jtag s') \<and>
     (error s \<longrightarrow> error s') \<and>
     (r \<noteq> 0 \<longrightarrow> length (jtag s) < length (jtag s')) \<and>
     (settles dev L \<longrightarrow> L < length (jtag s') \<longrightarrow> \<not> bit r 33)"

text \<open>
  What an operation built on the link has done once it returns: it made the link calls
  \<open>ops\<close>, left the configuration and \<open>halt_requested\<close> alone, and, when the sticky
  error was set, left it set and did no JTAG I/O.
\<close>

definition op_post :: "riscv_dtm \<Rightarrow> riscv_dtm \<Rightarrow> dbus_op list \<Rightarrow> bool" where
  "op_post s s' ops \<longleftrightarrow>
     version s' = version s \<and> abits s' = abits s \<and> idle s' = idle s \<and>
     dramsize s' = dramsize s \<and> halt_requested s' = halt_requested s \<and>
     dbus_log s' = dbus_log s @ ops \<and> length (jtag s) \<le> length (jtag s') \<and>
     (error s \<longrightarrow> error s' \<and> jtag s' = jtag s \<and> lastdbus s' = lastdbus s)"

text \<open>
  The link calls of one run of the executor on the first \<open>n\<close> words of \<open>code\<close>: the
  staging writes, the last of them with INTERRUPT, and one read of word \<open>n\<close> for each
  value in \<open>rs\<close>.
\<close>

definition staged :: "32 word list \<Rightarrow> nat \<Rightarrow> dbus_op list" where
  "staged code n =
     map (\<lambda>k. DbusWrite (word_of_nat k) (ucast (code ! k))) [0..<n - 1] @
     [DbusWrite (word_of_nat (n - 1)) (ucast (code ! (n - 1)) OR RISCV_DMCONTROL_INTERRUPT)]"

definition polled :: "nat \<Rightarrow> 64 word list \<Rightarrow> dbus_op list" where
  "polled n rs = map (DbusRead (word_of_nat n)) rs"

text \<open>The poll values of a completed run: INTERRUPT set in all but the last.\<close>

definition poll_run :: "64 word list \<Rightarrow> bool" where
  "poll_run rs \<longleftrightarrow> rs \<noteq> [] \<and> (\<forall>x \<in> set (butlast rs). bit x 33) \<and> \<not> bit (last rs) 33"

text \<open>
  A call that returns leaves the sticky error set and has done no JTAG I/O.
\<close>

definition keeps_error :: "riscv_dtm \<Rightarrow> riscv_dtm option \<Rightarrow> bool" where
  "keeps_error s res =
     (case res of None \<Rightarrow> True | Some s' \<Rightarrow> error s' \<and> jtag s' = jtag s)"

text \<open>
  A device given by a script: it answers the scan that is the \<open>k\<close>-th JTAG operation
  with the word the script has for \<open>k\<close>, and with 0 (status 0, data 0) when the script
  has none.
\<close>

definition scripted :: "(nat \<times> 64 word) list \<Rightarrow> device" where
  "scripted al h = (case map_of al (length h) of None \<Rightarrow> 0 | Some r \<Rightarrow> r)"

text \<open>A freshly scanned link: 5 address bits, one idle cycle, 16 words of Debug RAM.\<close>

definition dtm0 :: riscv_dtm where
  "dtm0 = \<lparr>version = 0, abits = 5, idle = 1, dramsize = 15, error = False, lastdbus = 0,
           halt_requested = False, jtag = [], dbus_log = []\<rparr>"

text \<open>A request for an execute breakpoint at \<open>0x08000100\<close>.\<close>

definition bw_exec :: breakwatch where
  "bw_exec = \<lparr>bw_type = TARGET_BREAK_HARD, bw_addr = 0x08000100,
              bw_reserved = [0xffffffff, 0, 0, 0]\<rparr>"




section \<open>Properties\<close>

subsection \<open>The link and the executor, step by step\<close>

lemmas jtag_defs = jtag_dev_write_ir_def jtag_dev_shift_dr_def jtagtap_tms_seq_def
  riscv_dtm_reset_def

lemma op_post_refl: "op_post s s []"
  by (simp add: op_post_def)

lemma op_post_trans: "op_post s s1 a \<Longrightarrow> op_post s1 s2 b \<Longrightarrow> op_post s s2 (a @ b)"
  by (simp add: op_post_def)

lemma retry_status3:
  assumes "dev (jtag s @ [ShiftDR (36 + unat (abits s)) d]) AND 3 = 3"
  shows "riscv_dtm_low_access_retry dev s d =
         riscv_dtm_low_access_retry dev
           (s\<lparr>jtag := jtag s @ [ShiftDR (36 + unat (abits s)) d,
                                 WriteIR RISCV_IR_DTMCONTROL,
                                 ShiftDR 32 RISCV_DTMCONTROL_DBUSRESET,
                                 WriteIR RISCV_IR_DBUS,
                                 ShiftDR (unat (abits s) + 36) (lastdbus s),
                                 TmsSeq 0 (unat (idle s))]\<rparr>) d"
  using assms
  by (subst riscv_dtm_low_access_retry.simps) (simp add: jtag_defs)

lemma retry_status0:
  assumes "dev (jtag s @ [ShiftDR (36 + unat (abits s)) d]) AND 3 = 0"
  shows "riscv_dtm_low_access_retry dev s d =
         Some (drop_bit 2 (dev (jtag s @ [ShiftDR (36 + unat (abits s)) d])) AND 0x3ffffffff,
               s\<lparr>jtag := jtag s @ [ShiftDR (36 + unat (abits s)) d, TmsSeq 0 (unat (idle s))],
                  lastdbus := d\<rparr>)"
  using assms
  by (subst riscv_dtm_low_access_retry.simps) (simp add: jtag_defs)

lemma retry_status_err:
  assumes "dev (jtag s @ [ShiftDR (36 + unat (abits s)) d]) AND 3 \<noteq> 3"
    and "dev (jtag s @ [ShiftDR (36 + unat (abits s)) d]) AND 3 \<noteq> 0"
  shows "riscv_dtm_low_access_retry dev s d =
         Some (0, s\<lparr>jtag := jtag s @ [ShiftDR (36 + unat (abits s)) d], error := True\<rparr>)"
  using assms
  by (subst riscv_dtm_low_access_retry.simps) (simp add: jtag_defs)

lemma bit33: "bit (drop_bit 2 (w::64 word) AND 0x3ffffffff) 33 = bit w 35"
proof -
  have "(0x3ffffffff :: 64 word) = mask 34" by (simp add: mask_eq_exp_minus_1)
  then show ?thesis by (simp add: bit_simps)
qed

lemma interrupt_bit: "(w AND RISCV_DMCONTROL_INTERRUPT \<noteq> 0) = bit w 33"
  by (simp add: RISCV_DMCONTROL_INTERRUPT_def bit_iff_and_push_bit_not_eq_0)

lemma retry_post:
  assumes "riscv_dtm_low_access_retry dev s d = Some y"
  shows "link_post dev L s (fst y) (snd y)"
proof (rule riscv_dtm_low_access_retry.raw_induct
    [where P = "\<lambda>dev s d y. link_post dev L s (fst y) (snd y)", OF _ assms])
  fix f :: "device \<Rightarrow> riscv_dtm \<Rightarrow> 64 word \<Rightarrow> (64 word \<times> riscv_dtm) option"
  fix dev s d y
  assume IH: "\<And>dev s d y. f dev s d = Some y \<Longrightarrow> link_post dev L s (fst y) (snd y)"
  assume body: "(case jtag_dev_shift_dr dev s d (36 + unat (abits s)) of
      (ret, s1) \<Rightarrow>
        if ret AND 3 = 3
        then f dev
              (jtagtap_tms_seq
                (snd (jtag_dev_shift_dr dev
                       (jtag_dev_write_ir (riscv_dtm_reset dev s1) RISCV_IR_DBUS)
                       (lastdbus s1) (unat (abits s1) + 36)))
                0 (unat (idle s1)))
              d
        else if ret AND 3 = 0
             then Some (drop_bit 2 ret AND 0x3ffffffff,
                    jtagtap_tms_seq (s1\<lparr>lastdbus := d\<rparr>) 0 (unat (idle s1)))
             else Some (0, s1\<lparr>error := True\<rparr>)) = Some y"
  let ?h = "jtag s @ [ShiftDR (36 + unat (abits s)) d]"
  consider "dev ?h AND 3 = 3" | "dev ?h AND 3 = 0" | "dev ?h AND 3 \<noteq> 3" "dev ?h AND 3 \<noteq> 0"
    by blast
  then show "link_post dev L s (fst y) (snd y)"
  proof cases
    case 1
    with body have "f dev (s\<lparr>jtag := ?h @ [WriteIR RISCV_IR_DTMCONTROL,
                                 ShiftDR 32 RISCV_DTMCONTROL_DBUSRESET,
                                 WriteIR RISCV_IR_DBUS,
                                 ShiftDR (unat (abits s) + 36) (lastdbus s),
                                 TmsSeq 0 (unat (idle s))]\<rparr>) d = Some y"
      by (simp add: jtag_defs)
    from IH [OF this] show ?thesis
      by (simp add: link_post_def)
  next
    case 2
    with body show ?thesis
      by (auto simp: jtag_defs link_post_def bit33 settles_def)
  next
    case 3
    with body show ?thesis
      by (auto simp: jtag_defs link_post_def)
  qed
qed

lemma retry_total:
  assumes "settles dev L"
  shows "\<exists>y. riscv_dtm_low_access_retry dev s d = Some y"
proof (induction "L - length (jtag s)" arbitrary: s rule: less_induct)
  case less
  let ?h = "jtag s @ [ShiftDR (36 + unat (abits s)) d]"
  consider "dev ?h AND 3 = 3" | "dev ?h AND 3 = 0" | "dev ?h AND 3 \<noteq> 3" "dev ?h AND 3 \<noteq> 0"
    by blast
  then show ?case
  proof cases
    case 1
    with assms have "length ?h < L" by (auto simp: settles_def not_le [symmetric])
    then show ?thesis
      by (subst retry_status3 [of dev s d, OF 1]) (rule less, simp)
  next
    case 2
    then show ?thesis by (simp add: retry_status0)
  next
    case 3
    then show ?thesis by (simp add: retry_status_err)
  qed
qed

lemma low_access_error: "error s \<Longrightarrow> riscv_dtm_low_access dev s d = Some (0, s)"
  by (simp add: riscv_dtm_low_access_def)

lemma low_access_post:
  assumes "riscv_dtm_low_access dev s d = Some (r, s')"
  shows "link_post dev L s r s' \<and> (error s \<longrightarrow> s' = s)"
proof (cases "error s")
  case True
  with assms show ?thesis by (simp add: low_access_error link_post_def)
next
  case False
  with assms retry_post [of dev s d "(r, s')" L] show ?thesis
    by (simp add: riscv_dtm_low_access_def)
qed

lemma low_access_total:
  "settles dev L \<Longrightarrow> \<exists>y. riscv_dtm_low_access dev s d = Some y"
  using retry_total [of dev L s d] by (auto simp: riscv_dtm_low_access_def)

lemma write_post:
  assumes "riscv_dtm_write dev s a d = Some s'"
  shows "op_post s s' [DbusWrite a d]"
proof -
  from assms obtain r s1 where
    la: "riscv_dtm_low_access dev s
           (push_bit 36 (ucast a) OR push_bit 2 (d AND 0x3ffffffff) OR RISCV_DBUS_WRITE)
         = Some (r, s1)"
    and s': "s' = s1\<lparr>dbus_log := dbus_log s1 @ [DbusWrite a d]\<rparr>"
    by (auto simp: riscv_dtm_write_def split: bind_splits)
  from low_access_post [OF la, of 0] s' show ?thesis
    by (auto simp: op_post_def link_post_def)
qed

lemma write_total:
  "settles dev L \<Longrightarrow> \<exists>s'. riscv_dtm_write dev s a d = Some s'"
  using low_access_total [of dev L s]
  by (fastforce simp: riscv_dtm_write_def split: bind_splits)

lemma read_post:
  assumes "riscv_dtm_read dev s a = Some (r, s')"
  shows "op_post s s' [DbusRead a r] \<and>
         (r \<noteq> 0 \<longrightarrow> length (jtag s) < length (jtag s')) \<and>
         (settles dev L \<longrightarrow> L < length (jtag s') \<longrightarrow> \<not> bit r 33)"
proof -
  from assms obtain r1 s1 s2 where
    la1: "riscv_dtm_low_access dev s (push_bit 36 (ucast a) OR RISCV_DBUS_READ) = Some (r1, s1)"
    and la2: "riscv_dtm_low_access dev s1 RISCV_DBUS_NOP = Some (r, s2)"
    and s': "s' = s2\<lparr>dbus_log := dbus_log s2 @ [DbusRead a r]\<rparr>"
    by (auto simp: riscv_dtm_read_def split: bind_splits)
  from low_access_post [OF la1, of L] low_access_post [OF la2, of L] s' show ?thesis
    by (auto simp: op_post_def link_post_def)
qed

lemma read_total:
  assumes "settles dev L"
  shows "\<exists>y. riscv_dtm_read dev s a = Some y"
proof -
  from low_access_total [OF assms] obtain r1 s1 where
    "riscv_dtm_low_access dev s (push_bit 36 (ucast a) OR RISCV_DBUS_READ) = Some (r1, s1)"
    by fastforce
  moreover from low_access_total [OF assms] obtain r2 s2 where
    "riscv_dtm_low_access dev s1 RISCV_DBUS_NOP = Some (r2, s2)"
    by fastforce
  ultimately show ?thesis by (simp add: riscv_dtm_read_def)
qed


lemma stage_post:
  assumes "riscv_debug_ram_exec_stage dev s code count i = Some (j, s')" and "0 \<le> i"
  shows "j = max i (count - 1) \<and>
         op_post s s' (map (\<lambda>k. DbusWrite (word_of_nat k) (ucast (code ! k)))
                         [nat i..<nat (count - 1)])"
  using assms
proof (induction dev s code count i rule: riscv_debug_ram_exec_stage.induct)
  case (1 dev s code count i)
  show ?case
  proof (cases "i < count - 1")
    case False
    with "1.prems" show ?thesis
      by (simp add: riscv_debug_ram_exec_stage.simps op_post_refl)
  next
    case True
    with "1.prems" obtain c s1 where
      c: "array_at code i = Some c"
      and w: "riscv_dtm_write dev s (word_of_int i) (ucast c) = Some s1"
      and rest: "riscv_debug_ram_exec_stage dev s1 code count (i + 1) = Some (j, s')"
      by (subst (asm) riscv_debug_ram_exec_stage.simps) (auto split: bind_splits)
    from "1.IH" [OF True c w rest] "1.prems" True
    have j: "j = count - 1"
      and post: "op_post s1 s' (map (\<lambda>k. DbusWrite (word_of_nat k) (ucast (code ! k)))
                                [nat (i + 1)..<nat (count - 1)])"
      by auto
    from c "1.prems" have ci: "c = code ! nat i" "word_of_int i = (word_of_nat (nat i) :: 32 word)"
      by (auto simp: array_at_def split: if_splits)
    from "1.prems" have suc: "nat (i + 1) = Suc (nat i)" by simp
    from True "1.prems" have "nat i < nat (count - 1)" by simp
    then have upt: "[nat i..<nat (count - 1)] = nat i # [nat (i + 1)..<nat (count - 1)]"
      unfolding suc by (rule upt_conv_Cons)
    from True have "max i (count - 1) = count - 1" by simp
    moreover from op_post_trans [OF write_post [OF w] post]
    have "op_post s s' (map (\<lambda>k. DbusWrite (word_of_nat k) (ucast (code ! k)))
                         [nat i..<nat (count - 1)])"
      unfolding upt ci by simp
    ultimately show ?thesis using j by simp
  qed
qed


lemma stage_total:
  assumes "settles dev L"
  shows "0 \<le> i \<Longrightarrow> count \<le> int (length code) \<Longrightarrow>
         \<exists>y. riscv_debug_ram_exec_stage dev s code count i = Some y"
proof (induction "nat (count - 1 - i)" arbitrary: s i)
  case 0
  then show ?case by (simp add: riscv_debug_ram_exec_stage.simps)
next
  case (Suc n)
  then have lt: "i < count - 1" by simp
  with Suc.prems have c: "array_at code i = Some (code ! nat i)"
    by (simp add: array_at_def)
  from write_total [OF assms] obtain s1 where
    w: "riscv_dtm_write dev s (word_of_int i) (ucast (code ! nat i)) = Some s1"
    by blast
  from Suc.hyps(2) have "n = nat (count - 1 - (i + 1))" by simp
  from Suc.hyps(1) [OF this, of s1] Suc.prems obtain y where
    "riscv_debug_ram_exec_stage dev s1 code count (i + 1) = Some y"
    by auto
  with lt c w show ?case
    by (subst riscv_debug_ram_exec_stage.simps) simp
qed

lemma poll_run_single: "\<not> bit r 33 \<Longrightarrow> poll_run [r]"
  by (simp add: poll_run_def)

lemma poll_run_Cons: "bit r 33 \<Longrightarrow> poll_run rs \<Longrightarrow> poll_run (r # rs)"
  by (auto simp: poll_run_def dest: in_set_butlastD)

lemma poll_post:
  assumes "riscv_debug_ram_exec_poll dev s count = Some y"
  shows "\<exists>rs. poll_run rs \<and> fst y = last rs \<and>
              op_post s (snd y) (map (DbusRead (word_of_int count)) rs)"
proof (rule riscv_debug_ram_exec_poll.raw_induct
    [where P = "\<lambda>dev s count y. \<exists>rs. poll_run rs \<and> fst y = last rs \<and>
              op_post s (snd y) (map (DbusRead (word_of_int count)) rs)", OF _ assms])
  fix f :: "device \<Rightarrow> riscv_dtm \<Rightarrow> int \<Rightarrow> (64 word \<times> riscv_dtm) option"
  fix dev s count y
  assume IH: "\<And>dev s count y. f dev s count = Some y \<Longrightarrow>
      \<exists>rs. poll_run rs \<and> fst y = last rs \<and>
           op_post s (snd y) (map (DbusRead (word_of_int count)) rs)"
  assume body: "riscv_dtm_read dev s (word_of_int count) \<bind>
       (\<lambda>(ret, s1). if ret AND RISCV_DMCONTROL_INTERRUPT \<noteq> 0 then f dev s1 count
                     else Some (ret, s1)) = Some y"
  then obtain r s1 where rd: "riscv_dtm_read dev s (word_of_int count) = Some (r, s1)"
    and k: "(if bit r 33 then f dev s1 count else Some (r, s1)) = Some y"
    by (auto simp: interrupt_bit split: bind_splits)
  from read_post [OF rd, of 0] have p1: "op_post s s1 [DbusRead (word_of_int count) r]"
    by simp
  show "\<exists>rs. poll_run rs \<and> fst y = last rs \<and>
             op_post s (snd y) (map (DbusRead (word_of_int count)) rs)"
  proof (cases "bit r 33")
    case False
    with k p1 have "poll_run [r] \<and> fst y = last [r] \<and>
        op_post s (snd y) (map (DbusRead (word_of_int count)) [r])"
      by (auto simp: poll_run_single)
    then show ?thesis by blast
  next
    case True
    with k have "f dev s1 count = Some y" by simp
    from IH [OF this] obtain rs where rs: "poll_run rs" "fst y = last rs"
      "op_post s1 (snd y) (map (DbusRead (word_of_int count)) rs)"
      by blast
    from rs(1) have ne: "rs \<noteq> []" by (simp add: poll_run_def)
    from True rs ne op_post_trans [OF p1 rs(3)]
    have "poll_run (r # rs) \<and> fst y = last (r # rs) \<and>
        op_post s (snd y) (map (DbusRead (word_of_int count)) (r # rs))"
      by (simp add: poll_run_Cons)
    then show ?thesis by blast
  qed
qed

lemma poll_total:
  assumes "settles dev L"
  shows "\<exists>y. riscv_debug_ram_exec_poll dev s count = Some y"
proof (induction "Suc L - length (jtag s)" arbitrary: s rule: less_induct)
  case less
  from read_total [OF assms] obtain r s1 where
    rd: "riscv_dtm_read dev s (word_of_int count) = Some (r, s1)"
    by fastforce
  show ?case
  proof (cases "bit r 33")
    case False
    with rd show ?thesis
      by (subst riscv_debug_ram_exec_poll.simps) (simp add: interrupt_bit)
  next
    case True
    then have "r \<noteq> 0" by auto
    with read_post [OF rd, of L] assms True
    have "length (jtag s) < length (jtag s1)" "length (jtag s1) \<le> L"
      by (auto simp: not_less [symmetric])
    then have "Suc L - length (jtag s1) < Suc L - length (jtag s)" by simp
    from less [OF this] obtain y where "riscv_debug_ram_exec_poll dev s1 count = Some y"
      by blast
    with rd True show ?thesis
      by (subst riscv_debug_ram_exec_poll.simps) (simp add: interrupt_bit)
  qed
qed


lemma staged_eq:
  assumes "1 \<le> count"
  shows "map (\<lambda>k. DbusWrite (word_of_nat k) (ucast (code ! k))) [nat 0..<nat (count - 1)] @
         [DbusWrite (word_of_int (count - 1))
            (ucast (code ! nat (count - 1)) OR RISCV_DMCONTROL_INTERRUPT)]
         = staged code (nat count)"
proof -
  from assms have "nat (count - 1) = nat count - 1" by simp
  moreover from assms have "(word_of_int (count - 1) :: 32 word) = word_of_nat (nat count - 1)"
    by (simp add: nat_diff_distrib')
  ultimately show ?thesis by (simp add: staged_def)
qed

lemma exec_post:
  assumes "riscv_debug_ram_exec dev s code count = Some (r, s')" and "1 \<le> count"
  shows "\<exists>rs. poll_run rs \<and> r = ucast (last rs) \<and>
              op_post s s' (staged code (nat count) @ polled (nat count) rs)"
proof -
  from assms(1) obtain i s1 c s2 ret where
    st: "riscv_debug_ram_exec_stage dev s code count 0 = Some (i, s1)"
    and c: "array_at code i = Some c"
    and w: "riscv_dtm_write dev s1 (word_of_int i) (ucast c OR RISCV_DMCONTROL_INTERRUPT) = Some s2"
    and po: "riscv_debug_ram_exec_poll dev s2 count = Some (ret, s')"
    and r: "r = ucast ret"
    by (auto simp: riscv_debug_ram_exec_def split: bind_splits)
  from stage_post [OF st] assms(2) have i: "i = count - 1"
    and p1: "op_post s s1 (map (\<lambda>k. DbusWrite (word_of_nat k) (ucast (code ! k)))
                            [nat 0..<nat (count - 1)])"
    by auto
  from c have c': "c = code ! nat (count - 1)"
    by (auto simp: array_at_def i split: if_splits)
  from poll_post [OF po] obtain rs where rs: "poll_run rs" "ret = last rs"
    "op_post s2 s' (map (DbusRead (word_of_int count)) rs)"
    by auto
  from assms(2) have cnt: "(word_of_int count :: 32 word) = word_of_nat (nat count)"
    by simp
  from op_post_trans [OF op_post_trans [OF p1 write_post [OF w]] rs(3)]
  have "op_post s s' (staged code (nat count) @ polled (nat count) rs)"
    unfolding i c' cnt polled_def staged_eq [OF assms(2), symmetric] by simp
  with rs r show ?thesis by blast
qed

lemma exec_total:
  assumes "settles dev L" and "1 \<le> count" and "count \<le> int (length code)"
  shows "\<exists>y. riscv_debug_ram_exec dev s code count = Some y"
proof -
  from stage_total [OF assms(1) _ assms(3), of 0 s] obtain i s1 where
    st: "riscv_debug_ram_exec_stage dev s code count 0 = Some (i, s1)"
    by fastforce
  from stage_post [OF st] assms(2) have i: "i = count - 1" by simp
  with assms have c: "array_at code i = Some (code ! nat i)"
    by (simp add: array_at_def)
  from write_total [OF assms(1)] obtain s2 where
    w: "riscv_dtm_write dev s1 (word_of_int i)
          (ucast (code ! nat i) OR RISCV_DMCONTROL_INTERRUPT) = Some s2"
    by blast
  from poll_total [OF assms(1)] obtain ret s3 where
    "riscv_debug_ram_exec_poll dev s2 count = Some (ret, s3)"
    by fastforce
  with st c w show ?thesis
    by (simp add: riscv_debug_ram_exec_def)
qed

lemma exec_run:
  assumes "settles dev L" and "1 \<le> count" and "count \<le> int (length code)"
  shows "\<exists>rs s'. riscv_debug_ram_exec dev s code count = Some (ucast (last rs), s') \<and>
                 poll_run rs \<and>
                 op_post s s' (staged code (nat count) @ polled (nat count) rs)"
proof -
  from exec_total [OF assms] obtain r s' where
    e: "riscv_debug_ram_exec dev s code count = Some (r, s')"
    by fastforce
  from exec_post [OF e assms(2)] e show ?thesis by blast
qed

lemma settles_scripted: "\<forall>k \<in> fst ` set al. k < L \<Longrightarrow> settles (scripted al) L"
proof -
  assume a: "\<forall>k \<in> fst ` set al. k < L"
  have "map_of al n = None" if "L \<le> n" for n
  proof -
    from a that have "n \<notin> fst ` set al" by auto
    then show ?thesis by (simp add: map_of_eq_None_iff)
  qed
  then show ?thesis by (simp add: settles_def scripted_def)
qed

subsection \<open>What the operations leave alone\<close>

lemma exec_frame:
  assumes "riscv_debug_ram_exec dev s code count = Some (r, s')"
  shows "\<exists>ops. op_post s s' ops"
proof -
  from assms obtain i s1 c s2 ret where
    st: "riscv_debug_ram_exec_stage dev s code count 0 = Some (i, s1)"
    and c: "array_at code i = Some c"
    and w: "riscv_dtm_write dev s1 (word_of_int i) (ucast c OR RISCV_DMCONTROL_INTERRUPT) = Some s2"
    and po: "riscv_debug_ram_exec_poll dev s2 count = Some (ret, s')"
    and r: "r = ucast ret"
    by (auto simp: riscv_debug_ram_exec_def split: bind_splits)
  from stage_post [OF st] have p1: "\<exists>ops. op_post s s1 ops" by auto
  from poll_post [OF po] have p3: "\<exists>ops. op_post s2 s' ops" by auto
  from p1 write_post [OF w] p3 show ?thesis
    by (blast intro: op_post_trans)
qed

lemma mem_read32_frame:
  "riscv_mem_read32 dev s a = Some (r, s') \<Longrightarrow> \<exists>ops. op_post s s' ops"
  unfolding riscv_mem_read32_def by (rule exec_frame)

lemma mem_write32_frame:
  "riscv_mem_write32 dev s a v = Some s' \<Longrightarrow> \<exists>ops. op_post s s' ops"
  by (auto simp: riscv_mem_write32_def split: bind_splits dest: exec_frame)

lemma gpreg_read_frame:
  "riscv_gpreg_read dev s reg = Some (r, s') \<Longrightarrow> \<exists>ops. op_post s s' ops"
  unfolding riscv_gpreg_read_def Let_def by (rule exec_frame)

lemma csreg_read_frame:
  "riscv_csreg_read dev s csr = Some (r, s') \<Longrightarrow> \<exists>ops. op_post s s' ops"
  unfolding riscv_csreg_read_def Let_def by (rule exec_frame)

lemma csreg_write_frame:
  "riscv_csreg_write dev s csr v = Some s' \<Longrightarrow> \<exists>ops. op_post s s' ops"
  by (auto simp: riscv_csreg_write_def Let_def split: bind_splits dest: exec_frame)

lemma gpreg_write_frame:
  "riscv_gpreg_write dev s reg v = Some s' \<Longrightarrow> \<exists>ops. op_post s s' ops"
  by (auto simp: riscv_gpreg_write_def Let_def split: bind_splits dest: exec_frame)

text \<open>The sticky error survives: what is left of \<open>op_post\<close> when \<open>halt_requested\<close> may change.\<close>

lemma op_post_sticky: "op_post s s' ops \<Longrightarrow> error s \<Longrightarrow> error s' \<and> jtag s' = jtag s"
  by (simp add: op_post_def)

lemma halt_request_sticky:
  assumes "riscv_halt_request dev s = Some s'" and "error s"
  shows "error s' \<and> jtag s' = jtag s"
proof -
  from assms(1) obtain r s1 where
    "riscv_debug_ram_exec dev s [0x7b046073, 0x4000006f] 2 = Some (r, s1)"
    and "s' = s1\<lparr>halt_requested := True\<rparr>"
    by (auto simp: riscv_halt_request_def split: bind_splits)
  with exec_frame [of dev s _ 2 r s1] assms(2) show ?thesis
    by (auto dest: op_post_sticky)
qed

lemma halt_resume_sticky:
  assumes "riscv_halt_resume dev s step = Some s'" and "error s"
  shows "error s' \<and> jtag s' = jtag s"
proof -
  from assms(1) obtain code r s1 where
    "riscv_debug_ram_exec dev s code 3 = Some (r, s1)"
    and "s' = s1\<lparr>halt_requested := False\<rparr>"
    by (auto simp: riscv_halt_resume_def Let_def split: bind_splits if_splits)
  with exec_frame [of dev s code 3 r s1] assms(2) show ?thesis
    by (auto dest: op_post_sticky)
qed

lemma mem_read_loop_frame:
  "riscv_mem_read_loop dev s src len = Some (vs, s') \<Longrightarrow> \<exists>ops. op_post s s' ops"
proof (induction len arbitrary: s src vs rule: less_induct)
  case (less len)
  show ?case
  proof (cases "len = 0")
    case True
    with less.prems show ?thesis
      by (auto simp: riscv_mem_read_loop.simps intro: op_post_refl)
  next
    case False
    with less.prems obtain v s1 ws where
      a: "riscv_mem_read32 dev s src = Some (v, s1)"
      and b: "riscv_mem_read_loop dev s1 (src + 4) (len - 4) = Some (ws, s')"
      by (subst (asm) riscv_mem_read_loop.simps) (auto split: bind_splits)
    from False have "len - 4 < len" by simp
    from less.IH [OF this b] mem_read32_frame [OF a] show ?thesis
      by (blast intro: op_post_trans)
  qed
qed

lemma mem_write_loop_frame:
  "riscv_mem_write_loop dev s dest src k len = Some s' \<Longrightarrow> \<exists>ops. op_post s s' ops"
proof (induction dev s dest src k len rule: riscv_mem_write_loop.induct)
  case (1 dev s dest src k len)
  show ?case
  proof (cases "len = 0")
    case True
    with "1.prems" show ?thesis
      by (auto simp: riscv_mem_write_loop.simps intro: op_post_refl)
  next
    case False
    with "1.prems" obtain v s1 where
      a: "array_at src k = Some v"
      and b: "riscv_mem_write32 dev s dest v = Some s1"
      and c: "riscv_mem_write_loop dev s1 (dest + 4) src (k + 1) (len - 4) = Some s'"
      by (subst (asm) riscv_mem_write_loop.simps) (auto split: bind_splits)
    from "1.IH" [OF False a b c] mem_write32_frame [OF b] show ?thesis
      by (blast intro: op_post_trans)
  qed
qed

lemma regs_write_switch_frame:
  "riscv_regs_write_switch dev s reg i = Some s' \<Longrightarrow> \<exists>ops. op_post s s' ops"
  by (auto simp: riscv_regs_write_switch_def split: if_splits bind_splits
      intro: op_post_refl write_post dest: csreg_write_frame gpreg_write_frame)

lemma regs_write_loop_frame:
  "riscv_regs_write_loop dev s reg i = Some s' \<Longrightarrow> \<exists>ops. op_post s s' ops"
proof (induction dev s reg i rule: riscv_regs_write_loop.induct)
  case (1 dev s reg i)
  show ?case
  proof (cases "i < 33")
    case False
    with "1.prems" show ?thesis
      by (auto simp: riscv_regs_write_loop.simps intro: op_post_refl)
  next
    case True
    with "1.prems" obtain s1 where
      a: "riscv_regs_write_switch dev s reg i = Some s1"
      and b: "riscv_regs_write_loop dev s1 reg (i + 1) = Some s'"
      by (subst (asm) riscv_regs_write_loop.simps) (auto split: bind_splits)
    from "1.IH" [OF True a b] regs_write_switch_frame [OF a] show ?thesis
      by (blast intro: op_post_trans)
  qed
qed

lemma reg_read_frame:
  "riscv_reg_read dev s reg val = Some (r, s') \<Longrightarrow> \<exists>ops. op_post s s' ops"
  by (auto simp: riscv_reg_read_def split: if_splits bind_splits
      intro: op_post_refl dest: csreg_read_frame gpreg_read_frame read_post)

lemma halt_poll_frame:
  assumes "riscv_halt_poll dev s = Some (r, s')"
  shows "\<exists>ops. op_post s s' ops"
proof -
  from assms obtain dmc s1 where
    a: "riscv_dtm_read dev s RISCV_DMCONTROL = Some (dmc, s1)"
    and b: "s' = s1 \<or> (\<exists>dcsr. riscv_csreg_read dev s1 RISCV_DCSR = Some (dcsr, s'))"
    by (auto simp: riscv_halt_poll_def Let_def split: if_splits bind_splits)
  from read_post [OF a, of 0] have "op_post s s1 [DbusRead RISCV_DMCONTROL dmc]" by simp
  with b show ?thesis
    by (blast intro: op_post_trans dest: csreg_read_frame)
qed

lemma walk_frame:
  assumes "riscv_breakwatch_set_walk dev s i = Some y"
  shows "\<exists>ops. op_post s (snd y) ops"
proof (rule riscv_breakwatch_set_walk.raw_induct
    [where P = "\<lambda>dev s i y. \<exists>ops. op_post s (snd y) ops", OF _ assms])
  fix f :: "device \<Rightarrow> riscv_dtm \<Rightarrow> 32 word \<Rightarrow> (32 word option \<times> riscv_dtm) option"
  fix dev s i y
  assume IH: "\<And>dev s i y. f dev s i = Some y \<Longrightarrow> \<exists>ops. op_post s (snd y) ops"
  assume body: "riscv_csreg_write dev s RISCV_TSELECT i \<bind>
       (\<lambda>s1. riscv_csreg_read dev s1 RISCV_TSELECT \<bind>
              (\<lambda>(readback, s2).
                  if readback \<noteq> i then Some (None, s2)
                  else riscv_csreg_read dev s2 RISCV_MCONTROL \<bind>
                       (\<lambda>(tdata1, s3).
                           let type = ucast (drop_bit (32 - 4) tdata1 AND 0xf) :: 8 word
                           in if type = 0 then Some (None, s3)
                              else if type = 2 \<and> tdata1 AND RISCV_MCONTROL_ENABLE_MASK = 0
                                   then Some (Some i, s3) else f dev s3 (i + 1)))) = Some y"
  then obtain s1 rb s2 where
    a: "riscv_csreg_write dev s RISCV_TSELECT i = Some s1"
    and b: "riscv_csreg_read dev s1 RISCV_TSELECT = Some (rb, s2)"
    and c: "snd y = s2 \<or> (\<exists>t s3. riscv_csreg_read dev s2 RISCV_MCONTROL = Some (t, s3) \<and>
              (snd y = s3 \<or> f dev s3 (i + 1) = Some y))"
    by (auto simp: Let_def split: bind_splits if_splits)
  from csreg_write_frame [OF a] csreg_read_frame [OF b]
  have "\<exists>ops. op_post s s2 ops" by (blast intro: op_post_trans)
  with c show "\<exists>ops. op_post s (snd y) ops"
    by (blast intro: op_post_trans dest: csreg_read_frame IH)
qed

lemma breakwatch_set_frame:
  assumes "riscv_breakwatch_set dev s bw = Some (r, s')"
  shows "\<exists>ops. op_post s s' ops"
proof (cases "riscv_breakwatch_mcontrol (bw_type bw)")
  case None
  with assms show ?thesis
    by (auto simp: riscv_breakwatch_set_def intro: op_post_refl)
next
  case (Some mcontrol)
  with assms obtain saved s1 found s2 where
    a: "riscv_csreg_read dev s RISCV_TSELECT = Some (saved, s1)"
    and b: "riscv_breakwatch_set_walk dev s1 0 = Some (found, s2)"
    and c: "s' = s2 \<or> (\<exists>s3 s4. riscv_csreg_write dev s2 RISCV_MCONTROL mcontrol = Some s3 \<and>
              riscv_csreg_write dev s3 RISCV_TDATA2 (bw_addr bw) = Some s4 \<and>
              riscv_csreg_write dev s4 RISCV_TSELECT saved = Some s')"
    by (auto simp: riscv_breakwatch_set_def split: bind_splits option.splits)
  from csreg_read_frame [OF a] walk_frame [OF b]
  have "\<exists>ops. op_post s s2 ops" by (auto intro: op_post_trans)
  with c show ?thesis
    by (blast intro: op_post_trans dest: csreg_write_frame)
qed

lemma breakwatch_clear_frame:
  assumes "riscv_breakwatch_clear dev s bw = Some (r, s')"
  shows "\<exists>ops. op_post s s' ops"
proof -
  from assms obtain i saved s1 s2 s3 where
    "riscv_csreg_read dev s RISCV_TSELECT = Some (saved, s1)"
    "riscv_csreg_write dev s1 RISCV_TSELECT i = Some s2"
    "riscv_csreg_write dev s2 RISCV_MCONTROL 0 = Some s3"
    "riscv_csreg_write dev s3 RISCV_TSELECT saved = Some s'"
    by (auto simp: riscv_breakwatch_clear_def split: bind_splits)
  then show ?thesis
    by (blast intro: op_post_trans dest: csreg_write_frame csreg_read_frame)
qed

subsection \<open>What the executor does\<close>

text \<open>
  C3. For every instruction list \<open>code\<close> of length \<open>n \<ge> 1\<close>, a run of
  \<^verbatim>\<open>riscv_debug_ram_exec\<close> that returns has written \<open>code[i]\<close> to Debug RAM word \<open>i\<close>
  for each \<open>i\<close> in \<open>0..n-2\<close>, then \<open>code[n-1]\<close> with the INTERRUPT bit (bit 33) to
  word \<open>n-1\<close>, then read word \<open>n\<close> at least once, every read but the last returning
  the INTERRUPT bit set and the last returning it clear, and its result is the low 32
  bits of the last read. The run does return when the device settles.
\<close>

theorem exec_stages_and_polls:
  assumes "code \<noteq> []"
  shows "(\<forall>r s'. riscv_debug_ram_exec dev s code (int (length code)) = Some (r, s') \<longrightarrow>
            (\<exists>rs. rs \<noteq> [] \<and>
               dbus_log s' = dbus_log s @
                 map (\<lambda>i. DbusWrite (word_of_nat i) (ucast (code ! i))) [0..<length code - 1] @
                 [DbusWrite (word_of_nat (length code - 1))
                    (ucast (code ! (length code - 1)) OR push_bit 33 1)] @
                 map (DbusRead (word_of_nat (length code))) rs \<and>
               (\<forall>x \<in> set (butlast rs). bit x 33) \<and> \<not> bit (last rs) 33 \<and>
               r = ucast (last rs))) \<and>
         (\<forall>L. settles dev L \<longrightarrow>
            (\<exists>y. riscv_debug_ram_exec dev s code (int (length code)) = Some y))"
proof (intro conjI allI impI)
  fix r s'
  assume e: "riscv_debug_ram_exec dev s code (int (length code)) = Some (r, s')"
  from assms have n: "1 \<le> int (length code)"
    by (cases code) simp_all
  from exec_post [OF e n] obtain rs where "poll_run rs" "r = ucast (last rs)"
    "op_post s s' (staged code (length code) @ polled (length code) rs)"
    by auto
  then have "rs \<noteq> [] \<and>
               dbus_log s' = dbus_log s @
                 map (\<lambda>i. DbusWrite (word_of_nat i) (ucast (code ! i))) [0..<length code - 1] @
                 [DbusWrite (word_of_nat (length code - 1))
                    (ucast (code ! (length code - 1)) OR push_bit 33 1)] @
                 map (DbusRead (word_of_nat (length code))) rs \<and>
               (\<forall>x \<in> set (butlast rs). bit x 33) \<and> \<not> bit (last rs) 33 \<and>
               r = ucast (last rs)"
    by (simp add: poll_run_def op_post_def staged_def polled_def RISCV_DMCONTROL_INTERRUPT_def)
  then show "\<exists>rs. rs \<noteq> [] \<and>
               dbus_log s' = dbus_log s @
                 map (\<lambda>i. DbusWrite (word_of_nat i) (ucast (code ! i))) [0..<length code - 1] @
                 [DbusWrite (word_of_nat (length code - 1))
                    (ucast (code ! (length code - 1)) OR push_bit 33 1)] @
                 map (DbusRead (word_of_nat (length code))) rs \<and>
               (\<forall>x \<in> set (butlast rs). bit x 33) \<and> \<not> bit (last rs) 33 \<and>
               r = ucast (last rs)"
    by blast
next
  fix L
  assume "settles dev L"
  moreover from assms have "1 \<le> int (length code)"
    by (cases code) simp_all
  ultimately show "\<exists>y. riscv_debug_ram_exec dev s code (int (length code)) = Some y"
    by (rule exec_total) simp
qed


theorem exec_stages_and_polls_witness:
  "[0x7b046073, 0x4000006f] \<noteq> ([] :: 32 word list) \<and>
   settles (scripted [(1, 3), (13, 0x800000000), (17, 0x14)]) 18 \<and>
   riscv_debug_ram_exec (scripted [(1, 3), (13, 0x800000000), (17, 0x14)]) dtm0
     [0x7b046073, 0x4000006f] 2 =
   Some (5, dtm0\<lparr>jtag := [ShiftDR 41 0x1ec1181ce, WriteIR 0x10, ShiftDR 32 0x10000,
                            WriteIR 0x11, ShiftDR 41 0, TmsSeq 0 1,
                            ShiftDR 41 0x1ec1181ce, TmsSeq 0 1,
                            ShiftDR 41 0x19000001be, TmsSeq 0 1,
                            ShiftDR 41 0x2000000001, TmsSeq 0 1, ShiftDR 41 0, TmsSeq 0 1,
                            ShiftDR 41 0x2000000001, TmsSeq 0 1, ShiftDR 41 0, TmsSeq 0 1],
                   dbus_log := [DbusWrite 0 0x7b046073, DbusWrite 1 0x24000006f,
                                DbusRead 2 0x200000000, DbusRead 2 5]\<rparr>) \<and>
   (\<exists>rs. rs \<noteq> [] \<and>
      [DbusWrite 0 0x7b046073, DbusWrite 1 0x24000006f,
       DbusRead 2 0x200000000, DbusRead 2 5] =
      [DbusWrite 0 0x7b046073, DbusWrite 1 (0x4000006f OR push_bit 33 1)] @
      map (DbusRead 2) rs \<and>
      (\<forall>x \<in> set (butlast rs). bit x 33) \<and> \<not> bit (last rs) 33 \<and>
      (5 :: 32 word) = ucast (last rs))"
proof -
  let ?dev = "scripted [(1, 3), (13, 0x800000000), (17, 0x14)]"
  let ?code = "[0x7b046073, 0x4000006f] :: 32 word list"
  have ne: "?code \<noteq> []" by simp
  have st: "settles ?dev 18" by (rule settles_scripted) simp
  have ev: "riscv_debug_ram_exec ?dev dtm0 ?code 2 =
   Some (5, dtm0\<lparr>jtag := [ShiftDR 41 0x1ec1181ce, WriteIR 0x10, ShiftDR 32 0x10000,
                            WriteIR 0x11, ShiftDR 41 0, TmsSeq 0 1,
                            ShiftDR 41 0x1ec1181ce, TmsSeq 0 1,
                            ShiftDR 41 0x19000001be, TmsSeq 0 1,
                            ShiftDR 41 0x2000000001, TmsSeq 0 1, ShiftDR 41 0, TmsSeq 0 1,
                            ShiftDR 41 0x2000000001, TmsSeq 0 1, ShiftDR 41 0, TmsSeq 0 1],
                   dbus_log := [DbusWrite 0 0x7b046073, DbusWrite 1 0x24000006f,
                                DbusRead 2 0x200000000, DbusRead 2 5]\<rparr>)"
    by code_simp
  from exec_stages_and_polls [OF ne, of ?dev dtm0] ev
  have "\<exists>rs. rs \<noteq> [] \<and>
      [DbusWrite 0 0x7b046073, DbusWrite 1 0x24000006f,
       DbusRead 2 0x200000000, DbusRead 2 5] =
      [DbusWrite 0 0x7b046073, DbusWrite 1 (0x4000006f OR push_bit 33 1)] @
      map (DbusRead 2) rs \<and>
      (\<forall>x \<in> set (butlast rs). bit x 33) \<and> \<not> bit (last rs) 33 \<and>
      (5 :: 32 word) = ucast (last rs)"
    by (simp add: dtm0_def)
  with ne st ev show ?thesis by blast
qed

subsection \<open>The sticky error\<close>

lemma keeps_error_pair:
  "error s \<Longrightarrow> (\<And>r s'. X = Some (r, s') \<Longrightarrow> \<exists>ops. op_post s s' ops) \<Longrightarrow>
   keeps_error s (map_option snd X)"
  by (cases X) (auto simp: keeps_error_def dest: op_post_sticky)

lemma keeps_error_state:
  "error s \<Longrightarrow> (\<And>s'. X = Some s' \<Longrightarrow> \<exists>ops. op_post s s' ops) \<Longrightarrow> keeps_error s X"
  by (cases X) (auto simp: keeps_error_def dest: op_post_sticky)

lemma keeps_error_sticky:
  "(\<And>s'. X = Some s' \<Longrightarrow> error s' \<and> jtag s' = jtag s) \<Longrightarrow> keeps_error s X"
  by (cases X) (auto simp: keeps_error_def)

lemma write_error:
  "error s \<Longrightarrow> riscv_dtm_write dev s a d = Some (s\<lparr>dbus_log := dbus_log s @ [DbusWrite a d]\<rparr>)"
  by (simp add: riscv_dtm_write_def low_access_error)

lemma read_error:
  "error s \<Longrightarrow> riscv_dtm_read dev s a = Some (0, s\<lparr>dbus_log := dbus_log s @ [DbusRead a 0]\<rparr>)"
  by (simp add: riscv_dtm_read_def low_access_error)

lemma check_error_set:
  "error s \<Longrightarrow> riscv_check_error dev s =
     (True, s\<lparr>jtag := jtag s @ [WriteIR RISCV_IR_DTMCONTROL,
                                ShiftDR 32 RISCV_DTMCONTROL_DBUSRESET],
              error := False\<rparr>)"
  by (simp add: riscv_check_error_def jtag_defs)

lemma low_access_status2:
  assumes "\<not> error s0" and "dev (jtag s0 @ [ShiftDR (36 + unat (abits s0)) d]) AND 3 = 2"
  shows "riscv_dtm_low_access dev s0 d =
     Some (0, s0\<lparr>jtag := jtag s0 @ [ShiftDR (36 + unat (abits s0)) d], error := True\<rparr>)"
  using assms by (simp add: riscv_dtm_low_access_def retry_status_err)

text \<open>
  C2. A scan answered with status 2 sets the sticky error. While it is set, every link
  operation (\<^verbatim>\<open>riscv_dtm_low_access\<close>, \<^verbatim>\<open>riscv_dtm_write\<close>, \<^verbatim>\<open>riscv_dtm_read\<close>)
  returns (with 0 where it has a result) and does no JTAG I/O. One call of
  \<^verbatim>\<open>riscv_check_error\<close> selects DTMCONTROL, scans DBUSRESET, clears the flag and
  returns true; the call right after it returns false and does nothing. No other
  function of the driver clears the flag: whichever of them returns leaves it set.
\<close>

theorem sticky_error:
  assumes "error s"
  shows "(\<forall>s0 d. \<not> error s0 \<longrightarrow>
            dev (jtag s0 @ [ShiftDR (36 + unat (abits s0)) d]) AND 3 = 2 \<longrightarrow>
            riscv_dtm_low_access dev s0 d =
              Some (0, s0\<lparr>jtag := jtag s0 @ [ShiftDR (36 + unat (abits s0)) d],
                          error := True\<rparr>)) \<and>
         riscv_dtm_low_access dev s dbus = Some (0, s) \<and>
         riscv_dtm_write dev s addr data =
           Some (s\<lparr>dbus_log := dbus_log s @ [DbusWrite addr data]\<rparr>) \<and>
         riscv_dtm_read dev s addr =
           Some (0, s\<lparr>dbus_log := dbus_log s @ [DbusRead addr 0]\<rparr>) \<and>
         riscv_check_error dev s =
           (True, s\<lparr>jtag := jtag s @ [WriteIR RISCV_IR_DTMCONTROL,
                                      ShiftDR 32 RISCV_DTMCONTROL_DBUSRESET],
                    error := False\<rparr>) \<and>
         riscv_check_error dev (snd (riscv_check_error dev s)) =
           (False, snd (riscv_check_error dev s)) \<and>
         error (riscv_dtm_reset dev s) \<and>
         keeps_error s (map_option snd (riscv_debug_ram_exec dev s code count)) \<and>
         keeps_error s (map_option snd (riscv_mem_read32 dev s maddr)) \<and>
         keeps_error s (riscv_mem_write32 dev s maddr mval) \<and>
         keeps_error s (map_option snd (riscv_gpreg_read dev s gpr)) \<and>
         keeps_error s (riscv_gpreg_write dev s gpr gval) \<and>
         keeps_error s (map_option snd (riscv_csreg_read dev s csr)) \<and>
         keeps_error s (riscv_csreg_write dev s csr cval) \<and>
         keeps_error s (riscv_halt_request dev s) \<and>
         keeps_error s (riscv_halt_resume dev s step) \<and>
         keeps_error s (map_option snd (riscv_halt_poll dev s)) \<and>
         keeps_error s (map_option snd (riscv_attach dev s)) \<and>
         keeps_error s (riscv_detach dev s) \<and>
         keeps_error s (riscv_reset dev s) \<and>
         keeps_error s (map_option snd (riscv_mem_read dev s src len)) \<and>
         keeps_error s (riscv_mem_write dev s dest buf wlen) \<and>
         keeps_error s (map_option snd (riscv_reg_read dev s reg val)) \<and>
         keeps_error s (riscv_regs_write dev s regs) \<and>
         keeps_error s (map_option snd (riscv_breakwatch_set dev s bw)) \<and>
         keeps_error s (map_option snd (riscv_breakwatch_clear dev s bw))"
proof -
  note e = assms
  have c1: "\<forall>s0 d. \<not> error s0 \<longrightarrow>
            dev (jtag s0 @ [ShiftDR (36 + unat (abits s0)) d]) AND 3 = 2 \<longrightarrow>
            riscv_dtm_low_access dev s0 d =
              Some (0, s0\<lparr>jtag := jtag s0 @ [ShiftDR (36 + unat (abits s0)) d],
                          error := True\<rparr>)"
    by (simp add: low_access_status2)
  have c2: "riscv_check_error dev (snd (riscv_check_error dev s)) =
           (False, snd (riscv_check_error dev s))"
    by (simp add: check_error_set [OF e]) (simp add: riscv_check_error_def)
  have c3: "error (riscv_dtm_reset dev s)"
    using e by (simp add: jtag_defs)
  have k1: "keeps_error s (map_option snd (riscv_debug_ram_exec dev s code count))"
    by (rule keeps_error_pair [OF e]) (rule exec_frame)
  have k2: "keeps_error s (map_option snd (riscv_mem_read32 dev s maddr))"
    by (rule keeps_error_pair [OF e]) (rule mem_read32_frame)
  have k3: "keeps_error s (riscv_mem_write32 dev s maddr mval)"
    by (rule keeps_error_state [OF e]) (rule mem_write32_frame)
  have k4: "keeps_error s (map_option snd (riscv_gpreg_read dev s gpr))"
    by (rule keeps_error_pair [OF e]) (rule gpreg_read_frame)
  have k5: "keeps_error s (riscv_gpreg_write dev s gpr gval)"
    by (rule keeps_error_state [OF e]) (rule gpreg_write_frame)
  have k6: "keeps_error s (map_option snd (riscv_csreg_read dev s csr))"
    by (rule keeps_error_pair [OF e]) (rule csreg_read_frame)
  have k7: "keeps_error s (riscv_csreg_write dev s csr cval)"
    by (rule keeps_error_state [OF e]) (rule csreg_write_frame)
  have k8: "keeps_error s (riscv_halt_request dev s)"
    by (rule keeps_error_sticky) (rule halt_request_sticky [OF _ e])
  have k9: "keeps_error s (riscv_halt_resume dev s step)" for step
    by (rule keeps_error_sticky) (rule halt_resume_sticky [OF _ e])
  have k10: "keeps_error s (map_option snd (riscv_halt_poll dev s))"
    by (rule keeps_error_pair [OF e]) (rule halt_poll_frame)
  have k11: "keeps_error s (map_option snd (riscv_attach dev s))"
    using k8 by (cases "riscv_halt_request dev s") (simp_all add: riscv_attach_def keeps_error_def)
  have k12: "keeps_error s (riscv_detach dev s)"
    unfolding riscv_detach_def by (rule k9)
  have k13: "keeps_error s (riscv_reset dev s)"
    unfolding riscv_reset_def by (rule keeps_error_state [OF e]) (rule csreg_write_frame)
  have k14: "keeps_error s (map_option snd (riscv_mem_read dev s src len))"
    by (rule keeps_error_pair [OF e])
      (auto simp: riscv_mem_read_def split: if_splits dest: mem_read_loop_frame)
  have k15: "keeps_error s (riscv_mem_write dev s dest buf wlen)"
    by (rule keeps_error_state [OF e])
      (auto simp: riscv_mem_write_def split: if_splits dest: mem_write_loop_frame)
  have k16: "keeps_error s (map_option snd (riscv_reg_read dev s reg val))"
    by (rule keeps_error_pair [OF e]) (rule reg_read_frame)
  have k17: "keeps_error s (riscv_regs_write dev s regs)"
    unfolding riscv_regs_write_def
    by (rule keeps_error_state [OF e]) (rule regs_write_loop_frame)
  have k18: "keeps_error s (map_option snd (riscv_breakwatch_set dev s bw))"
    by (rule keeps_error_pair [OF e]) (rule breakwatch_set_frame)
  have k19: "keeps_error s (map_option snd (riscv_breakwatch_clear dev s bw))"
    by (rule keeps_error_pair [OF e]) (rule breakwatch_clear_frame)
  from c1 low_access_error [OF e] write_error [OF e] read_error [OF e] check_error_set [OF e]
    c2 c3 k1 k2 k3 k4 k5 k6 k7 k8 k9 k10 k11 k12 k13 k14 k15 k16 k17 k18 k19
  show ?thesis by blast
qed


theorem sticky_error_witness:
  "riscv_dtm_low_access (scripted [(1, 2)]) dtm0 1 =
     Some (0, dtm0\<lparr>jtag := [ShiftDR 41 1], error := True\<rparr>) \<and>
   error (dtm0\<lparr>jtag := [ShiftDR 41 1], error := True\<rparr>) \<and>
   riscv_dtm_low_access (scripted [(1, 2)]) (dtm0\<lparr>jtag := [ShiftDR 41 1], error := True\<rparr>) 1 =
     Some (0, dtm0\<lparr>jtag := [ShiftDR 41 1], error := True\<rparr>) \<and>
   riscv_dtm_read (scripted [(1, 2)]) (dtm0\<lparr>jtag := [ShiftDR 41 1], error := True\<rparr>) 0x10 =
     Some (0, dtm0\<lparr>jtag := [ShiftDR 41 1], error := True, dbus_log := [DbusRead 0x10 0]\<rparr>) \<and>
   riscv_check_error (scripted [(1, 2)]) (dtm0\<lparr>jtag := [ShiftDR 41 1], error := True\<rparr>) =
     (True, dtm0\<lparr>jtag := [ShiftDR 41 1, WriteIR 0x10, ShiftDR 32 0x10000]\<rparr>) \<and>
   riscv_check_error (scripted [(1, 2)])
       (dtm0\<lparr>jtag := [ShiftDR 41 1, WriteIR 0x10, ShiftDR 32 0x10000]\<rparr>) =
     (False, dtm0\<lparr>jtag := [ShiftDR 41 1, WriteIR 0x10, ShiftDR 32 0x10000]\<rparr>) \<and>
   keeps_error (dtm0\<lparr>jtag := [ShiftDR 41 1], error := True\<rparr>)
     (riscv_halt_request (scripted [(1, 2)]) (dtm0\<lparr>jtag := [ShiftDR 41 1], error := True\<rparr>))"
proof -
  let ?dev = "scripted [(1, 2)]"
  let ?s = "dtm0\<lparr>jtag := [ShiftDR 41 1], error := True\<rparr>"
  have e: "error ?s" by simp
  have a: "\<not> error dtm0" "?dev (jtag dtm0 @ [ShiftDR (36 + unat (abits dtm0)) 1]) AND 3 = 2"
    by (simp_all add: dtm0_def scripted_def)
  have b: "dtm0\<lparr>jtag := jtag dtm0 @ [ShiftDR (36 + unat (abits dtm0)) 1], error := True\<rparr> = ?s"
    by (simp add: dtm0_def)
  have c: "?s\<lparr>jtag := jtag ?s @ [WriteIR RISCV_IR_DTMCONTROL,
                                   ShiftDR 32 RISCV_DTMCONTROL_DBUSRESET],
               error := False\<rparr> =
           dtm0\<lparr>jtag := [ShiftDR 41 1, WriteIR 0x10, ShiftDR 32 0x10000]\<rparr>"
    by (simp add: dtm0_def RISCV_IR_DTMCONTROL_def RISCV_DTMCONTROL_DBUSRESET_def)
  have d: "?s\<lparr>dbus_log := dbus_log ?s @ [DbusRead 0x10 0]\<rparr> =
           dtm0\<lparr>jtag := [ShiftDR 41 1], error := True, dbus_log := [DbusRead 0x10 0]\<rparr>"
    by (simp add: dtm0_def)
  note T = sticky_error [OF e, where dev = ?dev and dbus = 1 and addr = "0x10" and data = 0
      and code = "[]" and count = 0 and maddr = 0 and mval = 0 and gpr = 0 and gval = 0
      and csr = 0 and cval = 0 and step = False and src = 0 and len = 0 and dest = 0
      and buf = "[]" and wlen = 0 and reg = 0 and val = 0 and regs = "[]"
      and bw = "\<lparr>bw_type = TARGET_BREAK_HARD, bw_addr = 0, bw_reserved = []\<rparr>"]
  from T [THEN conjunct1, rule_format, OF a] b
  have w1: "riscv_dtm_low_access ?dev dtm0 1 = Some (0, ?s)"
    by simp
  from T c d have w2: "riscv_dtm_low_access ?dev ?s 1 = Some (0, ?s)"
    "riscv_dtm_read ?dev ?s 0x10 =
       Some (0, dtm0\<lparr>jtag := [ShiftDR 41 1], error := True, dbus_log := [DbusRead 0x10 0]\<rparr>)"
    "riscv_check_error ?dev ?s =
       (True, dtm0\<lparr>jtag := [ShiftDR 41 1, WriteIR 0x10, ShiftDR 32 0x10000]\<rparr>)"
    "keeps_error ?s (riscv_halt_request ?dev ?s)"
    by simp_all
  from T have "riscv_check_error ?dev (snd (riscv_check_error ?dev ?s)) =
     (False, snd (riscv_check_error ?dev ?s))"
    by blast
  then have w3: "riscv_check_error ?dev (dtm0\<lparr>jtag := [ShiftDR 41 1, WriteIR 0x10, ShiftDR 32 0x10000]\<rparr>) =
     (False, dtm0\<lparr>jtag := [ShiftDR 41 1, WriteIR 0x10, ShiftDR 32 0x10000]\<rparr>)"
    unfolding w2(3) by simp
  from e w1 w2 w3 show ?thesis by blast
qed

subsection \<open>Recovery from a retry status\<close>

lemma retry_trace:
  assumes "riscv_dtm_low_access_retry dev s d = Some y"
  shows "(\<exists>rest. jtag (snd y) = jtag s @ ShiftDR (36 + unat (abits s)) d # rest) \<and>
         (\<not> error s \<longrightarrow> lastdbus (snd y) = (if error (snd y) then lastdbus s else d))"
proof (rule riscv_dtm_low_access_retry.raw_induct
    [where P = "\<lambda>dev s d y.
        (\<exists>rest. jtag (snd y) = jtag s @ ShiftDR (36 + unat (abits s)) d # rest) \<and>
        (\<not> error s \<longrightarrow> lastdbus (snd y) = (if error (snd y) then lastdbus s else d))",
      OF _ assms])
  fix f :: "device \<Rightarrow> riscv_dtm \<Rightarrow> 64 word \<Rightarrow> (64 word \<times> riscv_dtm) option"
  fix dev s d y
  assume IH: "\<And>dev s d y. f dev s d = Some y \<Longrightarrow>
        (\<exists>rest. jtag (snd y) = jtag s @ ShiftDR (36 + unat (abits s)) d # rest) \<and>
        (\<not> error s \<longrightarrow> lastdbus (snd y) = (if error (snd y) then lastdbus s else d))"
  assume body: "(case jtag_dev_shift_dr dev s d (36 + unat (abits s)) of
      (ret, s1) \<Rightarrow>
        if ret AND 3 = 3
        then f dev
              (jtagtap_tms_seq
                (snd (jtag_dev_shift_dr dev
                       (jtag_dev_write_ir (riscv_dtm_reset dev s1) RISCV_IR_DBUS)
                       (lastdbus s1) (unat (abits s1) + 36)))
                0 (unat (idle s1)))
              d
        else if ret AND 3 = 0
             then Some (drop_bit 2 ret AND 0x3ffffffff,
                    jtagtap_tms_seq (s1\<lparr>lastdbus := d\<rparr>) 0 (unat (idle s1)))
             else Some (0, s1\<lparr>error := True\<rparr>)) = Some y"
  let ?h = "jtag s @ [ShiftDR (36 + unat (abits s)) d]"
  consider "dev ?h AND 3 = 3" | "dev ?h AND 3 = 0" | "dev ?h AND 3 \<noteq> 3" "dev ?h AND 3 \<noteq> 0"
    by blast
  then show "(\<exists>rest. jtag (snd y) = jtag s @ ShiftDR (36 + unat (abits s)) d # rest) \<and>
        (\<not> error s \<longrightarrow> lastdbus (snd y) = (if error (snd y) then lastdbus s else d))"
  proof cases
    case 1
    with body have "f dev (s\<lparr>jtag := ?h @ [WriteIR RISCV_IR_DTMCONTROL,
                                 ShiftDR 32 RISCV_DTMCONTROL_DBUSRESET,
                                 WriteIR RISCV_IR_DBUS,
                                 ShiftDR (unat (abits s) + 36) (lastdbus s),
                                 TmsSeq 0 (unat (idle s))]\<rparr>) d = Some y"
      by (simp add: jtag_defs)
    from IH [OF this] show ?thesis
      by auto
  next
    case 2
    with body show ?thesis
      by (auto simp: jtag_defs)
  next
    case 3
    with body show ?thesis
      by (auto simp: jtag_defs)
  qed
qed

text \<open>
  C4. When a scan of the link is answered with status 3, \<^verbatim>\<open>riscv_dtm_low_access\<close>
  selects IR = DTMCONTROL, scans a 32-bit DR holding DBUSRESET (bit 16), selects
  IR = DBUS again, scans \<open>lastdbus\<close>, runs the idle cycles and starts over with the
  transaction it was asked for: so the first scan of the link after the reset carries
  \<open>lastdbus\<close>, and the one after it the current payload again. \<open>lastdbus\<close> is the payload of
  the last transaction that was answered with status 0: a returning call stores its
  payload there exactly when it ends without the sticky error.
\<close>

theorem status3_recovery:
  assumes "\<not> error s"
    and "dev (jtag s @ [ShiftDR (36 + unat (abits s)) dbus]) AND 3 = 3"
  shows "riscv_dtm_low_access dev s dbus =
           riscv_dtm_low_access dev
             (s\<lparr>jtag := jtag s @ [ShiftDR (36 + unat (abits s)) dbus,
                                   WriteIR RISCV_IR_DTMCONTROL,
                                   ShiftDR 32 RISCV_DTMCONTROL_DBUSRESET,
                                   WriteIR RISCV_IR_DBUS,
                                   ShiftDR (unat (abits s) + 36) (lastdbus s),
                                   TmsSeq 0 (unat (idle s))]\<rparr>) dbus \<and>
         (\<forall>r s'. riscv_dtm_low_access dev s dbus = Some (r, s') \<longrightarrow>
            (\<exists>rest. jtag s' = jtag s @ [ShiftDR (36 + unat (abits s)) dbus,
                                        WriteIR RISCV_IR_DTMCONTROL,
                                        ShiftDR 32 RISCV_DTMCONTROL_DBUSRESET,
                                        WriteIR RISCV_IR_DBUS,
                                        ShiftDR (unat (abits s) + 36) (lastdbus s),
                                        TmsSeq 0 (unat (idle s)),
                                        ShiftDR (36 + unat (abits s)) dbus] @ rest)) \<and>
         (\<forall>s0 d0 r s'. riscv_dtm_low_access dev s0 d0 = Some (r, s') \<longrightarrow>
            lastdbus s' = (if error s' then lastdbus s0 else d0))"
proof (intro conjI allI impI)
  let ?s5 = "s\<lparr>jtag := jtag s @ [ShiftDR (36 + unat (abits s)) dbus,
                                   WriteIR RISCV_IR_DTMCONTROL,
                                   ShiftDR 32 RISCV_DTMCONTROL_DBUSRESET,
                                   WriteIR RISCV_IR_DBUS,
                                   ShiftDR (unat (abits s) + 36) (lastdbus s),
                                   TmsSeq 0 (unat (idle s))]\<rparr>"
  from assms show eq: "riscv_dtm_low_access dev s dbus = riscv_dtm_low_access dev ?s5 dbus"
    by (simp add: riscv_dtm_low_access_def retry_status3 [of dev s dbus])
  fix r s'
  assume "riscv_dtm_low_access dev s dbus = Some (r, s')"
  with eq assms(1) have "riscv_dtm_low_access_retry dev ?s5 dbus = Some (r, s')"
    by (simp add: riscv_dtm_low_access_def)
  from retry_trace [OF this]
  show "\<exists>rest. jtag s' = jtag s @ [ShiftDR (36 + unat (abits s)) dbus,
                                        WriteIR RISCV_IR_DTMCONTROL,
                                        ShiftDR 32 RISCV_DTMCONTROL_DBUSRESET,
                                        WriteIR RISCV_IR_DBUS,
                                        ShiftDR (unat (abits s) + 36) (lastdbus s),
                                        TmsSeq 0 (unat (idle s)),
                                        ShiftDR (36 + unat (abits s)) dbus] @ rest"
    by auto
next
  fix s0 d0 r s'
  assume a: "riscv_dtm_low_access dev s0 d0 = Some (r, s')"
  show "lastdbus s' = (if error s' then lastdbus s0 else d0)"
  proof (cases "error s0")
    case True
    with a show ?thesis by (simp add: low_access_error)
  next
    case False
    with a have "riscv_dtm_low_access_retry dev s0 d0 = Some (r, s')"
      by (simp add: riscv_dtm_low_access_def)
    from retry_trace [OF this] False show ?thesis by simp
  qed
qed

theorem status3_recovery_witness:
  "\<not> error (dtm0\<lparr>jtag := [ShiftDR 41 0x2000000001, TmsSeq 0 1], lastdbus := 0x2000000001\<rparr>) \<and>
   scripted [(1, 0), (3, 3)] [ShiftDR 41 0x2000000001, TmsSeq 0 1, ShiftDR 41 0] AND 3 = 3 \<and>
   riscv_dtm_low_access (scripted [(1, 0), (3, 3)]) dtm0 0x2000000001 =
     Some (0, dtm0\<lparr>jtag := [ShiftDR 41 0x2000000001, TmsSeq 0 1], lastdbus := 0x2000000001\<rparr>) \<and>
   riscv_dtm_low_access (scripted [(1, 0), (3, 3)])
     (dtm0\<lparr>jtag := [ShiftDR 41 0x2000000001, TmsSeq 0 1], lastdbus := 0x2000000001\<rparr>) 0 =
     Some (0, dtm0\<lparr>jtag := [ShiftDR 41 0x2000000001, TmsSeq 0 1, ShiftDR 41 0, WriteIR 0x10,
                              ShiftDR 32 0x10000, WriteIR 0x11, ShiftDR 41 0x2000000001,
                              TmsSeq 0 1, ShiftDR 41 0, TmsSeq 0 1],
                     lastdbus := 0\<rparr>)"
proof -
  let ?dev = "scripted [(1, 0), (3, 3)]"
  let ?s = "dtm0\<lparr>jtag := [ShiftDR 41 0x2000000001, TmsSeq 0 1], lastdbus := 0x2000000001\<rparr>"
  let ?s5 = "dtm0\<lparr>jtag := [ShiftDR 41 0x2000000001, TmsSeq 0 1, ShiftDR 41 0, WriteIR 0x10,
                           ShiftDR 32 0x10000, WriteIR 0x11, ShiftDR 41 0x2000000001,
                           TmsSeq 0 1],
                  lastdbus := 0x2000000001\<rparr>"
  have a: "\<not> error ?s" by (simp add: dtm0_def)
  have b: "?dev (jtag ?s @ [ShiftDR (36 + unat (abits ?s)) 0]) AND 3 = 3"
    by (simp add: dtm0_def scripted_def)
  have b': "?dev [ShiftDR 41 0x2000000001, TmsSeq 0 1, ShiftDR 41 0] AND 3 = 3"
    by (simp add: scripted_def)
  have c: "?s\<lparr>jtag := jtag ?s @ [ShiftDR (36 + unat (abits ?s)) 0,
                                   WriteIR RISCV_IR_DTMCONTROL,
                                   ShiftDR 32 RISCV_DTMCONTROL_DBUSRESET,
                                   WriteIR RISCV_IR_DBUS,
                                   ShiftDR (unat (abits ?s) + 36) (lastdbus ?s),
                                   TmsSeq 0 (unat (idle ?s))]\<rparr> = ?s5"
    by (simp add: dtm0_def RISCV_IR_DTMCONTROL_def RISCV_DTMCONTROL_DBUSRESET_def
        RISCV_IR_DBUS_def)
  have first: "riscv_dtm_low_access ?dev dtm0 0x2000000001 = Some (0, ?s)"
    by code_simp
  have ev: "riscv_dtm_low_access ?dev ?s5 0 =
     Some (0, dtm0\<lparr>jtag := [ShiftDR 41 0x2000000001, TmsSeq 0 1, ShiftDR 41 0, WriteIR 0x10,
                              ShiftDR 32 0x10000, WriteIR 0x11, ShiftDR 41 0x2000000001,
                              TmsSeq 0 1, ShiftDR 41 0, TmsSeq 0 1],
                     lastdbus := 0\<rparr>)"
    by code_simp
  from status3_recovery [of ?s ?dev 0, OF a b, THEN conjunct1]
  have "riscv_dtm_low_access ?dev ?s 0 = riscv_dtm_low_access ?dev ?s5 0"
    unfolding c .
  with a b' first ev show ?thesis by simp
qed

subsection \<open>The wire format\<close>















subsection \<open>The halt reason\<close>

lemma and7_cases:
  fixes w :: "32 word"
  obtains "w AND 7 = 0" | "w AND 7 = 1" | "w AND 7 = 2" | "w AND 7 = 3"
    | "w AND 7 = 4" | "w AND 7 = 5" | "w AND 7 = 6" | "w AND 7 = 7"
proof -
  define v where "v = w AND 7"
  have "v \<le> 7" unfolding v_def by (rule word_and_le1)
  then have "unat v \<le> 7" by (simp add: word_le_nat_alt)
  then consider "unat v = 0" | "unat v = 1" | "unat v = 2" | "unat v = 3"
    | "unat v = 4" | "unat v = 5" | "unat v = 6" | "unat v = 7"
    by linarith
  then have "v = 0 \<or> v = 1 \<or> v = 2 \<or> v = 3 \<or> v = 4 \<or> v = 5 \<or> v = 6 \<or> v = 7"
    by cases (simp_all add: word_unat_eq_iff)
  with that show thesis unfolding v_def by blast
qed

text \<open>
  C5. \<^verbatim>\<open>riscv_halt_poll\<close> first reads \<open>dmcontrol\<close> and returns RUNNING when
  \<open>halt_requested\<close> is false and HALTNOT (bit 32) is 0. Otherwise it reads \<open>dcsr\<close> and,
  with \<open>cause = (dcsr >> 6) & 7\<close>, returns RUNNING for cause 0, BREAKPOINT for 1 and 2,
  REQUEST for 3, STEPPING for 4, REQUEST for 5 and ERROR for 6 and 7, the only other
  values. It returns whenever the two reads return.
\<close>

theorem halt_poll_decode:
  assumes "riscv_dtm_read dev s RISCV_DMCONTROL = Some (dmcontrol, s1)"
  shows "(\<not> halt_requested s \<and> \<not> bit dmcontrol 32 \<longrightarrow>
            riscv_halt_poll dev s = Some (TARGET_HALT_RUNNING, s1)) \<and>
         (\<forall>dcsr s2 cause.
            (halt_requested s \<or> bit dmcontrol 32) \<and>
            riscv_csreg_read dev s1 RISCV_DCSR = Some (dcsr, s2) \<and>
            cause = unat (drop_bit 6 dcsr AND 7) \<longrightarrow>
            cause < 8 \<and>
            (cause = 0 \<longrightarrow> riscv_halt_poll dev s = Some (TARGET_HALT_RUNNING, s2)) \<and>
            (cause = 1 \<or> cause = 2 \<longrightarrow>
               riscv_halt_poll dev s = Some (TARGET_HALT_BREAKPOINT, s2)) \<and>
            (cause = 3 \<longrightarrow> riscv_halt_poll dev s = Some (TARGET_HALT_REQUEST, s2)) \<and>
            (cause = 4 \<longrightarrow> riscv_halt_poll dev s = Some (TARGET_HALT_STEPPING, s2)) \<and>
            (cause = 5 \<longrightarrow> riscv_halt_poll dev s = Some (TARGET_HALT_REQUEST, s2)) \<and>
            (cause = 6 \<or> cause = 7 \<longrightarrow>
               riscv_halt_poll dev s = Some (TARGET_HALT_ERROR, s2)))"
proof -
  from read_post [OF assms, of 0] have h: "halt_requested s1 = halt_requested s"
    by (simp add: op_post_def)
  have hn: "(dmcontrol AND RISCV_DMCONTROL_HALTNOT = 0) = (\<not> bit dmcontrol 32)"
    by (simp add: RISCV_DMCONTROL_HALTNOT_def bit_iff_and_push_bit_not_eq_0)
  have run: "\<not> halt_requested s \<and> \<not> bit dmcontrol 32 \<longrightarrow>
            riscv_halt_poll dev s = Some (TARGET_HALT_RUNNING, s1)"
    by (simp add: riscv_halt_poll_def assms h hn)
  have dec: "cause < 8 \<and>
            (cause = 0 \<longrightarrow> riscv_halt_poll dev s = Some (TARGET_HALT_RUNNING, s2)) \<and>
            (cause = 1 \<or> cause = 2 \<longrightarrow>
               riscv_halt_poll dev s = Some (TARGET_HALT_BREAKPOINT, s2)) \<and>
            (cause = 3 \<longrightarrow> riscv_halt_poll dev s = Some (TARGET_HALT_REQUEST, s2)) \<and>
            (cause = 4 \<longrightarrow> riscv_halt_poll dev s = Some (TARGET_HALT_STEPPING, s2)) \<and>
            (cause = 5 \<longrightarrow> riscv_halt_poll dev s = Some (TARGET_HALT_REQUEST, s2)) \<and>
            (cause = 6 \<or> cause = 7 \<longrightarrow>
               riscv_halt_poll dev s = Some (TARGET_HALT_ERROR, s2))"
    if halted: "halt_requested s \<or> bit dmcontrol 32"
      and cs: "riscv_csreg_read dev s1 RISCV_DCSR = Some (dcsr, s2)"
      and cause: "cause = unat (drop_bit 6 dcsr AND 7)"
    for dcsr s2 cause
  proof -
    from halted have nr: "(\<not> halt_requested s1 \<and> dmcontrol AND RISCV_DMCONTROL_HALTNOT = 0) = False"
      by (simp add: h hn)
    have pre: "riscv_halt_poll dev s =
        (let c = (ucast (drop_bit 6 dcsr AND 7) :: 8 word) in
         if c = 0 then Some (TARGET_HALT_RUNNING, s2)
         else if c = 1 \<or> c = 2 then Some (TARGET_HALT_BREAKPOINT, s2)
         else if c = 3 then Some (TARGET_HALT_REQUEST, s2)
         else if c = 4 then Some (TARGET_HALT_STEPPING, s2)
         else if c = 5 then Some (TARGET_HALT_REQUEST, s2)
         else Some (TARGET_HALT_ERROR, s2))"
      unfolding riscv_halt_poll_def assms by (simp only: nr cs bind.bind_lunit prod.case if_False)
    show ?thesis
      by (rule and7_cases [of "drop_bit 6 dcsr"]) (simp_all add: pre cause)
  qed
  from run dec show ?thesis by blast
qed


theorem halt_poll_decode_witness:
  "\<exists>s1 s2.
     riscv_dtm_read (scripted [(3, 0x400000000), (13, 0x200)]) dtm0 RISCV_DMCONTROL =
       Some (0x100000000, s1) \<and>
     bit (0x100000000 :: 64 word) 32 \<and>
     riscv_csreg_read (scripted [(3, 0x400000000), (13, 0x200)]) s1 RISCV_DCSR =
       Some (0x80, s2) \<and>
     unat (drop_bit 6 (0x80 :: 32 word) AND 7) = 2 \<and>
     riscv_halt_poll (scripted [(3, 0x400000000), (13, 0x200)]) dtm0 =
       Some (TARGET_HALT_BREAKPOINT, s2)"
proof -
  let ?dev = "scripted [(3, 0x400000000), (13, 0x200)]"
  let ?s1 = "dtm0\<lparr>jtag := [ShiftDR 41 0x10000000001, TmsSeq 0 1, ShiftDR 41 0, TmsSeq 0 1],
                  dbus_log := [DbusRead 0x10 0x100000000]\<rparr>"
  let ?s2 = "dtm0\<lparr>jtag := [ShiftDR 41 0x10000000001, TmsSeq 0 1, ShiftDR 41 0, TmsSeq 0 1,
                           ShiftDR 41 0x1ec0091ce, TmsSeq 0 1, ShiftDR 41 0x110200988e,
                           TmsSeq 0 1, ShiftDR 41 0x28ff0001be, TmsSeq 0 1,
                           ShiftDR 41 0x3000000001, TmsSeq 0 1, ShiftDR 41 0, TmsSeq 0 1],
                  dbus_log := [DbusRead 0x10 0x100000000, DbusWrite 0 0x7b002473,
                               DbusWrite 1 0x40802623, DbusWrite 2 0x23fc0006f,
                               DbusRead 3 0x80]\<rparr>"
  have rd: "riscv_dtm_read ?dev dtm0 RISCV_DMCONTROL = Some (0x100000000, ?s1)"
    by code_simp
  have cs: "riscv_csreg_read ?dev ?s1 RISCV_DCSR = Some (0x80, ?s2)"
    by code_simp
  have b: "bit (0x100000000 :: 64 word) 32"
    by (simp add: bit_iff_and_push_bit_not_eq_0)
  have c: "unat (drop_bit 6 (0x80 :: 32 word) AND 7) = 2"
    by simp
  from halt_poll_decode [OF rd, THEN conjunct2, rule_format, of "0x80" ?s2 2] b cs c
  have "riscv_halt_poll ?dev dtm0 = Some (TARGET_HALT_BREAKPOINT, ?s2)"
    by simp
  with rd b cs c show ?thesis by blast
qed

subsection \<open>The memory write stub\<close>

lemma stage_cong:
  assumes "\<And>k. 0 \<le> k \<Longrightarrow> k < count \<Longrightarrow> array_at code k = array_at code' k"
  shows "0 \<le> i \<Longrightarrow>
         riscv_debug_ram_exec_stage dev s code count i =
         riscv_debug_ram_exec_stage dev s code' count i"
proof (induction "nat (count - 1 - i)" arbitrary: s i)
  case 0
  then show ?case by (simp add: riscv_debug_ram_exec_stage.simps)
next
  case (Suc n)
  then have lt: "i < count - 1" by simp
  with Suc.prems assms have c: "array_at code i = array_at code' i" by simp
  from Suc.hyps(2) have n: "n = nat (count - 1 - (i + 1))" by simp
  from Suc.prems have i1: "0 \<le> i + 1" by simp
  note IH = Suc.hyps(1) [OF n i1]
  show ?case
    by (subst (1 2) riscv_debug_ram_exec_stage.simps) (simp add: lt c IH cong: Option.bind_cong)
qed

lemma exec_cong:
  assumes "\<And>k. 0 \<le> k \<Longrightarrow> k < count \<Longrightarrow> array_at code k = array_at code' k"
    and "1 \<le> count"
  shows "riscv_debug_ram_exec dev s code count = riscv_debug_ram_exec dev s code' count"
proof -
  have st: "riscv_debug_ram_exec_stage dev s code count 0 =
            riscv_debug_ram_exec_stage dev s code' count 0"
    by (rule stage_cong [OF assms(1)]) simp_all
  have "array_at code i = array_at code' i"
    if "riscv_debug_ram_exec_stage dev s code' count 0 = Some (i, s1)" for i s1
    using stage_post [OF that] assms by simp
  then show ?thesis
    unfolding riscv_debug_ram_exec_def st
    by (auto intro!: Option.bind_cong)
qed

text \<open>
  C1 says that \<^verbatim>\<open>riscv_mem_write32\<close> stages six words, the fifth being \<open>addr\<close> and the
  sixth \<open>val\<close> with the INTERRUPT bit. The function builds the six-word array its
  comment describes but passes the count 5 to the executor. What is proved here is what
  the code does: the result of \<^verbatim>\<open>riscv_mem_write32\<close> is the same for every \<open>val\<close>, and
  on a link that answers every scan with status 0 the call with \<open>addr = 0x20000000\<close>
  and \<open>val = 0xdeadbeef\<close> stages five words, the INTERRUPT bit on \<open>addr\<close> at word 4,
  polls word 5 and never writes \<open>val\<close>.
\<close>

theorem mem_write32_never_stages_val:
  "riscv_mem_write32 dev s addr val = riscv_mem_write32 dev s addr val' \<and>
   riscv_mem_write32 (scripted []) dtm0 0x20000000 0xdeadbeef =
     Some (dtm0\<lparr>jtag := [ShiftDR 41 0x10400900e, TmsSeq 0 1,
                          ShiftDR 41 0x110500920e, TmsSeq 0 1,
                          ShiftDR 41 0x200250808e, TmsSeq 0 1,
                          ShiftDR 41 0x30fe0001be, TmsSeq 0 1,
                          ShiftDR 41 0x4880000002, TmsSeq 0 1,
                          ShiftDR 41 0x5000000001, TmsSeq 0 1,
                          ShiftDR 41 0, TmsSeq 0 1],
                dbus_log := [DbusWrite 0 0x41002403, DbusWrite 1 0x41402483,
                             DbusWrite 2 0x942023, DbusWrite 3 0x3f80006f,
                             DbusWrite 4 0x220000000, DbusRead 5 0]\<rparr>)"
proof
  have "riscv_debug_ram_exec dev s [0x41002403, 0x41402483, 0x942023, 0x3f80006f, addr, val] 5 =
        riscv_debug_ram_exec dev s [0x41002403, 0x41402483, 0x942023, 0x3f80006f, addr, val'] 5"
    by (rule exec_cong) (auto simp: array_at_def nth_Cons' nat_eq_iff)
  then show "riscv_mem_write32 dev s addr val = riscv_mem_write32 dev s addr val'"
    by (simp add: riscv_mem_write32_def)
  show "riscv_mem_write32 (scripted []) dtm0 0x20000000 0xdeadbeef =
     Some (dtm0\<lparr>jtag := [ShiftDR 41 0x10400900e, TmsSeq 0 1,
                          ShiftDR 41 0x110500920e, TmsSeq 0 1,
                          ShiftDR 41 0x200250808e, TmsSeq 0 1,
                          ShiftDR 41 0x30fe0001be, TmsSeq 0 1,
                          ShiftDR 41 0x4880000002, TmsSeq 0 1,
                          ShiftDR 41 0x5000000001, TmsSeq 0 1,
                          ShiftDR 41 0, TmsSeq 0 1],
                dbus_log := [DbusWrite 0 0x41002403, DbusWrite 1 0x41402483,
                             DbusWrite 2 0x942023, DbusWrite 3 0x3f80006f,
                             DbusWrite 4 0x220000000, DbusRead 5 0]\<rparr>)"
    by code_simp
qed

subsection \<open>The register map\<close>

text \<open>
  C10. For a register index outside the mapped set (negative, 33 to 64, or above
  \<open>65 + 4095\<close>), \<^verbatim>\<open>riscv_reg_read\<close> makes no link call and does no JTAG I/O, leaves
  the word in the caller's buffer as it was, and still returns 4.
\<close>

theorem reg_read_unmapped:
  assumes "reg < 0 \<or> (33 \<le> reg \<and> reg \<le> 64) \<or> 65 + 4095 < reg"
  shows "riscv_reg_read dev s reg val = Some ((4, val), s)"
  using assms by (auto simp: riscv_reg_read_def)

theorem reg_read_unmapped_witness:
  "((40 :: int) < 0 \<or> (33 \<le> (40 :: int) \<and> (40 :: int) \<le> 64) \<or> 65 + 4095 < (40 :: int)) \<and>
   riscv_reg_read (scripted []) dtm0 40 0xdeadbeef = Some ((4, 0xdeadbeef), dtm0)"
  using reg_read_unmapped [of 40 "scripted []" dtm0 "0xdeadbeef"] by simp








lemma csreg_write_run:
  assumes "settles dev L"
  shows "\<exists>rs s'. riscv_csreg_write dev s csr v = Some s' \<and> poll_run rs \<and>
           op_post s s' (staged [0x40c02403, 0x00041073 OR push_bit 20 (ucast csr),
                                 0x3fc0006f, v] 4 @ polled 4 rs)"
proof -
  from exec_run [OF assms, of 4 "[0x40c02403, 0x00041073 OR push_bit 20 (ucast csr), 0x3fc0006f, v]" s]
  show ?thesis
    by (auto simp: riscv_csreg_write_def)
qed









subsection \<open>Triggers\<close>

lemma mcontrol_hard:
  "riscv_breakwatch_mcontrol TARGET_BREAK_HARD = Some 0x0800107c"
  by (simp add: riscv_breakwatch_mcontrol_def RISCV_MCONTROL_DMODE_def
      RISCV_MCONTROL_ACTION_DEBUG_def RISCV_MCONTROL_ENABLE_MASK_def RISCV_MCONTROL_EXECUTE_def)

lemma bw_exec_run:
  "riscv_breakwatch_set (scripted [(9, 4), (41, 0x80000000)]) dtm0 bw_exec =
   Some ((0, bw_exec\<lparr>bw_reserved := [0, 0, 0, 0]\<rparr>),
     dtm0\<lparr>jtag := [ShiftDR 41 0x1e80091ce, TmsSeq 0 1, ShiftDR 41 0x110200988e, TmsSeq 0 1,
           ShiftDR 41 0x28ff0001be, TmsSeq 0 1, ShiftDR 41 0x3000000001, TmsSeq 0 1,
           ShiftDR 41 0x0, TmsSeq 0 1, ShiftDR 41 0x10300900e, TmsSeq 0 1,
           ShiftDR 41 0x11e81041ce, TmsSeq 0 1, ShiftDR 41 0x20ff0001be, TmsSeq 0 1,
           ShiftDR 41 0x3800000002, TmsSeq 0 1, ShiftDR 41 0x4000000001, TmsSeq 0 1,
           ShiftDR 41 0x0, TmsSeq 0 1, ShiftDR 41 0x1e80091ce, TmsSeq 0 1,
           ShiftDR 41 0x110200988e, TmsSeq 0 1, ShiftDR 41 0x28ff0001be, TmsSeq 0 1,
           ShiftDR 41 0x3000000001, TmsSeq 0 1, ShiftDR 41 0x0, TmsSeq 0 1,
           ShiftDR 41 0x1e84091ce, TmsSeq 0 1, ShiftDR 41 0x110200988e, TmsSeq 0 1,
           ShiftDR 41 0x28ff0001be, TmsSeq 0 1, ShiftDR 41 0x3000000001, TmsSeq 0 1,
           ShiftDR 41 0x0, TmsSeq 0 1, ShiftDR 41 0x10300900e, TmsSeq 0 1,
           ShiftDR 41 0x11e85041ce, TmsSeq 0 1, ShiftDR 41 0x20ff0001be, TmsSeq 0 1,
           ShiftDR 41 0x38200041f2, TmsSeq 0 1, ShiftDR 41 0x4000000001, TmsSeq 0 1,
           ShiftDR 41 0x0, TmsSeq 0 1, ShiftDR 41 0x10300900e, TmsSeq 0 1,
           ShiftDR 41 0x11e89041ce, TmsSeq 0 1, ShiftDR 41 0x20ff0001be, TmsSeq 0 1,
           ShiftDR 41 0x3820000402, TmsSeq 0 1, ShiftDR 41 0x4000000001, TmsSeq 0 1,
           ShiftDR 41 0x0, TmsSeq 0 1, ShiftDR 41 0x10300900e, TmsSeq 0 1,
           ShiftDR 41 0x11e81041ce, TmsSeq 0 1, ShiftDR 41 0x20ff0001be, TmsSeq 0 1,
           ShiftDR 41 0x3800000006, TmsSeq 0 1, ShiftDR 41 0x4000000001, TmsSeq 0 1,
           ShiftDR 41 0x0, TmsSeq 0 1],
          dbus_log := [DbusWrite 0x0 0x7a002473, DbusWrite 0x1 0x40802623, DbusWrite 0x2 0x23fc0006f,
           DbusRead 0x3 0x1, DbusWrite 0x0 0x40c02403, DbusWrite 0x1 0x7a041073,
           DbusWrite 0x2 0x3fc0006f, DbusWrite 0x3 0x200000000, DbusRead 0x4 0x0,
           DbusWrite 0x0 0x7a002473, DbusWrite 0x1 0x40802623, DbusWrite 0x2 0x23fc0006f,
           DbusRead 0x3 0x0, DbusWrite 0x0 0x7a102473, DbusWrite 0x1 0x40802623,
           DbusWrite 0x2 0x23fc0006f, DbusRead 0x3 0x20000000, DbusWrite 0x0 0x40c02403,
           DbusWrite 0x1 0x7a141073, DbusWrite 0x2 0x3fc0006f, DbusWrite 0x3 0x20800107c,
           DbusRead 0x4 0x0, DbusWrite 0x0 0x40c02403, DbusWrite 0x1 0x7a241073,
           DbusWrite 0x2 0x3fc0006f, DbusWrite 0x3 0x208000100, DbusRead 0x4 0x0,
           DbusWrite 0x0 0x40c02403, DbusWrite 0x1 0x7a041073, DbusWrite 0x2 0x3fc0006f,
           DbusWrite 0x3 0x200000001, DbusRead 0x4 0x0]\<rparr>)"
  by code_simp

text \<open>
  C7 gives the word written to \<open>mcontrol\<close> for an execute trigger as
  \<open>(1<<27) | (1<<12) | (0xf<<3) | (1<<2)\<close> and says that this is \<open>0x08001084\<close>. Setting the
  execute breakpoint at \<open>0x08000100\<close> on a hart whose trigger 0 is free (and whose
  \<open>tselect\<close> reads 1 before the call) writes \<open>0x0800107c\<close>: the value word of the
  \<open>mcontrol\<close> stub is staged as \<open>0x20800107c\<close>, with the INTERRUPT bit, and
  \<open>0x208001084\<close> is never staged. The expression of the claim is not \<open>0x08001084\<close>.
\<close>

theorem mcontrol_value_counterexample:
  "riscv_breakwatch_set (scripted [(9, 4), (41, 0x80000000)]) dtm0 bw_exec \<noteq> None \<and>
   fst (the (riscv_breakwatch_set (scripted [(9, 4), (41, 0x80000000)]) dtm0 bw_exec)) =
     (0, bw_exec\<lparr>bw_reserved := [0, 0, 0, 0]\<rparr>) \<and>
   dbus_log (snd (the (riscv_breakwatch_set (scripted [(9, 4), (41, 0x80000000)]) dtm0 bw_exec))) =
     [DbusWrite 0x0 0x7a002473, DbusWrite 0x1 0x40802623,
      DbusWrite 0x2 0x23fc0006f, DbusRead 0x3 0x1, DbusWrite 0x0 0x40c02403,
      DbusWrite 0x1 0x7a041073, DbusWrite 0x2 0x3fc0006f,
      DbusWrite 0x3 0x200000000, DbusRead 0x4 0x0, DbusWrite 0x0 0x7a002473,
      DbusWrite 0x1 0x40802623, DbusWrite 0x2 0x23fc0006f, DbusRead 0x3 0x0,
      DbusWrite 0x0 0x7a102473, DbusWrite 0x1 0x40802623,
      DbusWrite 0x2 0x23fc0006f, DbusRead 0x3 0x20000000, DbusWrite 0x0 0x40c02403,
      DbusWrite 0x1 0x7a141073, DbusWrite 0x2 0x3fc0006f,
      DbusWrite 0x3 0x20800107c, DbusRead 0x4 0x0, DbusWrite 0x0 0x40c02403,
      DbusWrite 0x1 0x7a241073, DbusWrite 0x2 0x3fc0006f,
      DbusWrite 0x3 0x208000100, DbusRead 0x4 0x0, DbusWrite 0x0 0x40c02403,
      DbusWrite 0x1 0x7a041073, DbusWrite 0x2 0x3fc0006f,
      DbusWrite 0x3 0x200000001, DbusRead 0x4 0x0] \<and>
   DbusWrite 3 0x208001084 \<notin>
     set (dbus_log (snd (the (riscv_breakwatch_set (scripted [(9, 4), (41, 0x80000000)]) dtm0 bw_exec)))) \<and>
   (push_bit 27 1 OR push_bit 12 1 OR push_bit 3 0xf OR push_bit 2 1 :: 32 word) \<noteq> 0x08001084"
  by (simp add: bw_exec_run)

text \<open>
  C7, amended. When \<^verbatim>\<open>riscv_breakwatch_set\<close> is asked for a hard breakpoint and its
  walk has found a free slot \<open>i\<close>, then (on a device that settles) it returns 0 with
  \<open>i\<close> stored in the breakwatch record, having run three CSR write stubs after the
  walk: \<open>mcontrol\<close> (\<open>0x7a1\<close>) with the value
  \<open>(1<<27) | (1<<12) | (0xf<<3) | (1<<2) = 0x0800107c\<close>, \<open>tdata2\<close> (\<open>0x7a2\<close>) with the
  breakpoint address, and \<open>tselect\<close> (\<open>0x7a0\<close>) with the value read before the walk.
\<close>

theorem breakwatch_set_execute_trigger:
  assumes "bw_type bw = TARGET_BREAK_HARD"
    and "settles dev L"
    and "riscv_csreg_read dev s RISCV_TSELECT = Some (tselect_saved, s1)"
    and "riscv_breakwatch_set_walk dev s1 0 = Some (Some i, s2)"
  shows "\<exists>s' rs1 rs2 rs3.
           riscv_breakwatch_set dev s bw =
             Some ((0, bw\<lparr>bw_reserved := (bw_reserved bw)[0 := i]\<rparr>), s') \<and>
           poll_run rs1 \<and> poll_run rs2 \<and> poll_run rs3 \<and>
           dbus_log s' = dbus_log s2 @
             staged [0x40c02403, 0x7a141073, 0x3fc0006f, 0x0800107c] 4 @ polled 4 rs1 @
             staged [0x40c02403, 0x7a241073, 0x3fc0006f, bw_addr bw] 4 @ polled 4 rs2 @
             staged [0x40c02403, 0x7a041073, 0x3fc0006f, tselect_saved] 4 @ polled 4 rs3 \<and>
           (0x0800107c :: 32 word) =
             push_bit 27 1 OR push_bit 12 1 OR push_bit 3 0xf OR push_bit 2 1"
proof -
  from csreg_write_run [OF assms(2), of s2 RISCV_MCONTROL "0x0800107c"] obtain rs1 s3 where
    1: "riscv_csreg_write dev s2 RISCV_MCONTROL 0x0800107c = Some s3" "poll_run rs1"
      "op_post s2 s3 (staged [0x40c02403, 0x7a141073, 0x3fc0006f, 0x0800107c] 4 @ polled 4 rs1)"
    by (auto simp: RISCV_MCONTROL_def)
  from csreg_write_run [OF assms(2), of s3 RISCV_TDATA2 "bw_addr bw"] obtain rs2 s4 where
    2: "riscv_csreg_write dev s3 RISCV_TDATA2 (bw_addr bw) = Some s4" "poll_run rs2"
      "op_post s3 s4 (staged [0x40c02403, 0x7a241073, 0x3fc0006f, bw_addr bw] 4 @ polled 4 rs2)"
    by (auto simp: RISCV_TDATA2_def)
  from csreg_write_run [OF assms(2), of s4 RISCV_TSELECT tselect_saved] obtain rs3 s5 where
    3: "riscv_csreg_write dev s4 RISCV_TSELECT tselect_saved = Some s5" "poll_run rs3"
      "op_post s4 s5 (staged [0x40c02403, 0x7a041073, 0x3fc0006f, tselect_saved] 4 @ polled 4 rs3)"
    by (auto simp: RISCV_TSELECT_def)
  have r: "riscv_breakwatch_set dev s bw =
             Some ((0, bw\<lparr>bw_reserved := (bw_reserved bw)[0 := i]\<rparr>), s5)"
    by (simp add: riscv_breakwatch_set_def assms(1,3,4) mcontrol_hard 1(1) 2(1) 3(1))
  from op_post_trans [OF op_post_trans [OF 1(3) 2(3)] 3(3)]
  have l: "dbus_log s5 = dbus_log s2 @
             staged [0x40c02403, 0x7a141073, 0x3fc0006f, 0x0800107c] 4 @ polled 4 rs1 @
             staged [0x40c02403, 0x7a241073, 0x3fc0006f, bw_addr bw] 4 @ polled 4 rs2 @
             staged [0x40c02403, 0x7a041073, 0x3fc0006f, tselect_saved] 4 @ polled 4 rs3"
    by (simp add: op_post_def)
  have c: "(0x0800107c :: 32 word) =
             push_bit 27 1 OR push_bit 12 1 OR push_bit 3 0xf OR push_bit 2 1"
    by simp
  from r 1(2) 2(2) 3(2) l c show ?thesis by blast
qed

theorem breakwatch_set_execute_trigger_witness:
  "bw_type bw_exec = TARGET_BREAK_HARD \<and>
   settles (scripted [(9, 4), (41, 0x80000000)]) 42 \<and>
   (\<exists>s1 s2.
      riscv_csreg_read (scripted [(9, 4), (41, 0x80000000)]) dtm0 RISCV_TSELECT = Some (1, s1) \<and>
      riscv_breakwatch_set_walk (scripted [(9, 4), (41, 0x80000000)]) s1 0 = Some (Some 0, s2) \<and>
      (\<exists>s' rs1 rs2 rs3.
         riscv_breakwatch_set (scripted [(9, 4), (41, 0x80000000)]) dtm0 bw_exec =
           Some ((0, bw_exec\<lparr>bw_reserved := [0, 0, 0, 0]\<rparr>), s') \<and>
         poll_run rs1 \<and> poll_run rs2 \<and> poll_run rs3 \<and>
         dbus_log s' = dbus_log s2 @
           staged [0x40c02403, 0x7a141073, 0x3fc0006f, 0x0800107c] 4 @ polled 4 rs1 @
           staged [0x40c02403, 0x7a241073, 0x3fc0006f, 0x08000100] 4 @ polled 4 rs2 @
           staged [0x40c02403, 0x7a041073, 0x3fc0006f, 1] 4 @ polled 4 rs3))"
proof -
  let ?dev = "scripted [(9, 4), (41, 0x80000000)]"
  let ?s1 = "dtm0\<lparr>jtag := [ShiftDR 41 0x1e80091ce, TmsSeq 0 1, ShiftDR 41 0x110200988e, TmsSeq 0 1,
                ShiftDR 41 0x28ff0001be, TmsSeq 0 1, ShiftDR 41 0x3000000001, TmsSeq 0 1,
                ShiftDR 41 0x0, TmsSeq 0 1],
               dbus_log := [DbusWrite 0x0 0x7a002473, DbusWrite 0x1 0x40802623, DbusWrite 0x2 0x23fc0006f,
                DbusRead 0x3 0x1]\<rparr>"
  let ?s2 = "dtm0\<lparr>jtag := [ShiftDR 41 0x1e80091ce, TmsSeq 0 1, ShiftDR 41 0x110200988e, TmsSeq 0 1,
                ShiftDR 41 0x28ff0001be, TmsSeq 0 1, ShiftDR 41 0x3000000001, TmsSeq 0 1,
                ShiftDR 41 0x0, TmsSeq 0 1, ShiftDR 41 0x10300900e, TmsSeq 0 1,
                ShiftDR 41 0x11e81041ce, TmsSeq 0 1, ShiftDR 41 0x20ff0001be, TmsSeq 0 1,
                ShiftDR 41 0x3800000002, TmsSeq 0 1, ShiftDR 41 0x4000000001, TmsSeq 0 1,
                ShiftDR 41 0x0, TmsSeq 0 1, ShiftDR 41 0x1e80091ce, TmsSeq 0 1,
                ShiftDR 41 0x110200988e, TmsSeq 0 1, ShiftDR 41 0x28ff0001be, TmsSeq 0 1,
                ShiftDR 41 0x3000000001, TmsSeq 0 1, ShiftDR 41 0x0, TmsSeq 0 1,
                ShiftDR 41 0x1e84091ce, TmsSeq 0 1, ShiftDR 41 0x110200988e, TmsSeq 0 1,
                ShiftDR 41 0x28ff0001be, TmsSeq 0 1, ShiftDR 41 0x3000000001, TmsSeq 0 1,
                ShiftDR 41 0x0, TmsSeq 0 1],
               dbus_log := [DbusWrite 0x0 0x7a002473, DbusWrite 0x1 0x40802623, DbusWrite 0x2 0x23fc0006f,
                DbusRead 0x3 0x1, DbusWrite 0x0 0x40c02403, DbusWrite 0x1 0x7a041073,
                DbusWrite 0x2 0x3fc0006f, DbusWrite 0x3 0x200000000, DbusRead 0x4 0x0,
                DbusWrite 0x0 0x7a002473, DbusWrite 0x1 0x40802623, DbusWrite 0x2 0x23fc0006f,
                DbusRead 0x3 0x0, DbusWrite 0x0 0x7a102473, DbusWrite 0x1 0x40802623,
                DbusWrite 0x2 0x23fc0006f, DbusRead 0x3 0x20000000]\<rparr>"
  have ty: "bw_type bw_exec = TARGET_BREAK_HARD" by (simp add: bw_exec_def)
  have st: "settles ?dev 42" by (rule settles_scripted) simp
  have rd: "riscv_csreg_read ?dev dtm0 RISCV_TSELECT = Some (1, ?s1)"
    by code_simp
  have wk: "riscv_breakwatch_set_walk ?dev ?s1 0 = Some (Some 0, ?s2)"
    by code_simp
  have bw: "bw_exec\<lparr>bw_reserved := (bw_reserved bw_exec)[0 := 0]\<rparr> =
            bw_exec\<lparr>bw_reserved := [0, 0, 0, 0]\<rparr>"
    "bw_addr bw_exec = 0x08000100"
    by (simp_all add: bw_exec_def)
  from breakwatch_set_execute_trigger [OF ty st rd wk, unfolded bw]
  have "\<exists>s' rs1 rs2 rs3.
         riscv_breakwatch_set ?dev dtm0 bw_exec =
           Some ((0, bw_exec\<lparr>bw_reserved := [0, 0, 0, 0]\<rparr>), s') \<and>
         poll_run rs1 \<and> poll_run rs2 \<and> poll_run rs3 \<and>
         dbus_log s' = dbus_log ?s2 @
           staged [0x40c02403, 0x7a141073, 0x3fc0006f, 0x0800107c] 4 @ polled 4 rs1 @
           staged [0x40c02403, 0x7a241073, 0x3fc0006f, 0x08000100] 4 @ polled 4 rs2 @
           staged [0x40c02403, 0x7a041073, 0x3fc0006f, 1] 4 @ polled 4 rs3"
    by blast
  with ty st rd wk show ?thesis by blast
qed

lemma bw_exec_full:
  "riscv_breakwatch_set (scripted [(41, 0xa00041f0), (63, 4), (73, 0xa00041f0), (95, 8)]) dtm0 bw_exec =
   Some ((- 1, bw_exec),
     dtm0\<lparr>jtag := [ShiftDR 41 0x1e80091ce, TmsSeq 0 1, ShiftDR 41 0x110200988e, TmsSeq 0 1,
           ShiftDR 41 0x28ff0001be, TmsSeq 0 1, ShiftDR 41 0x3000000001, TmsSeq 0 1,
           ShiftDR 41 0x0, TmsSeq 0 1, ShiftDR 41 0x10300900e, TmsSeq 0 1,
           ShiftDR 41 0x11e81041ce, TmsSeq 0 1, ShiftDR 41 0x20ff0001be, TmsSeq 0 1,
           ShiftDR 41 0x3800000002, TmsSeq 0 1, ShiftDR 41 0x4000000001, TmsSeq 0 1,
           ShiftDR 41 0x0, TmsSeq 0 1, ShiftDR 41 0x1e80091ce, TmsSeq 0 1,
           ShiftDR 41 0x110200988e, TmsSeq 0 1, ShiftDR 41 0x28ff0001be, TmsSeq 0 1,
           ShiftDR 41 0x3000000001, TmsSeq 0 1, ShiftDR 41 0x0, TmsSeq 0 1,
           ShiftDR 41 0x1e84091ce, TmsSeq 0 1, ShiftDR 41 0x110200988e, TmsSeq 0 1,
           ShiftDR 41 0x28ff0001be, TmsSeq 0 1, ShiftDR 41 0x3000000001, TmsSeq 0 1,
           ShiftDR 41 0x0, TmsSeq 0 1, ShiftDR 41 0x10300900e, TmsSeq 0 1,
           ShiftDR 41 0x11e81041ce, TmsSeq 0 1, ShiftDR 41 0x20ff0001be, TmsSeq 0 1,
           ShiftDR 41 0x3800000006, TmsSeq 0 1, ShiftDR 41 0x4000000001, TmsSeq 0 1,
           ShiftDR 41 0x0, TmsSeq 0 1, ShiftDR 41 0x1e80091ce, TmsSeq 0 1,
           ShiftDR 41 0x110200988e, TmsSeq 0 1, ShiftDR 41 0x28ff0001be, TmsSeq 0 1,
           ShiftDR 41 0x3000000001, TmsSeq 0 1, ShiftDR 41 0x0, TmsSeq 0 1,
           ShiftDR 41 0x1e84091ce, TmsSeq 0 1, ShiftDR 41 0x110200988e, TmsSeq 0 1,
           ShiftDR 41 0x28ff0001be, TmsSeq 0 1, ShiftDR 41 0x3000000001, TmsSeq 0 1,
           ShiftDR 41 0x0, TmsSeq 0 1, ShiftDR 41 0x10300900e, TmsSeq 0 1,
           ShiftDR 41 0x11e81041ce, TmsSeq 0 1, ShiftDR 41 0x20ff0001be, TmsSeq 0 1,
           ShiftDR 41 0x380000000a, TmsSeq 0 1, ShiftDR 41 0x4000000001, TmsSeq 0 1,
           ShiftDR 41 0x0, TmsSeq 0 1, ShiftDR 41 0x1e80091ce, TmsSeq 0 1,
           ShiftDR 41 0x110200988e, TmsSeq 0 1, ShiftDR 41 0x28ff0001be, TmsSeq 0 1,
           ShiftDR 41 0x3000000001, TmsSeq 0 1, ShiftDR 41 0x0, TmsSeq 0 1,
           ShiftDR 41 0x1e84091ce, TmsSeq 0 1, ShiftDR 41 0x110200988e, TmsSeq 0 1,
           ShiftDR 41 0x28ff0001be, TmsSeq 0 1, ShiftDR 41 0x3000000001, TmsSeq 0 1,
           ShiftDR 41 0x0, TmsSeq 0 1],
          dbus_log := [DbusWrite 0x0 0x7a002473, DbusWrite 0x1 0x40802623, DbusWrite 0x2 0x23fc0006f,
           DbusRead 0x3 0x0, DbusWrite 0x0 0x40c02403, DbusWrite 0x1 0x7a041073,
           DbusWrite 0x2 0x3fc0006f, DbusWrite 0x3 0x200000000, DbusRead 0x4 0x0,
           DbusWrite 0x0 0x7a002473, DbusWrite 0x1 0x40802623, DbusWrite 0x2 0x23fc0006f,
           DbusRead 0x3 0x0, DbusWrite 0x0 0x7a102473, DbusWrite 0x1 0x40802623,
           DbusWrite 0x2 0x23fc0006f, DbusRead 0x3 0x2800107c, DbusWrite 0x0 0x40c02403,
           DbusWrite 0x1 0x7a041073, DbusWrite 0x2 0x3fc0006f, DbusWrite 0x3 0x200000001,
           DbusRead 0x4 0x0, DbusWrite 0x0 0x7a002473, DbusWrite 0x1 0x40802623,
           DbusWrite 0x2 0x23fc0006f, DbusRead 0x3 0x1, DbusWrite 0x0 0x7a102473,
           DbusWrite 0x1 0x40802623, DbusWrite 0x2 0x23fc0006f, DbusRead 0x3 0x2800107c,
           DbusWrite 0x0 0x40c02403, DbusWrite 0x1 0x7a041073, DbusWrite 0x2 0x3fc0006f,
           DbusWrite 0x3 0x200000002, DbusRead 0x4 0x0, DbusWrite 0x0 0x7a002473,
           DbusWrite 0x1 0x40802623, DbusWrite 0x2 0x23fc0006f, DbusRead 0x3 0x2,
           DbusWrite 0x0 0x7a102473, DbusWrite 0x1 0x40802623, DbusWrite 0x2 0x23fc0006f,
           DbusRead 0x3 0x0]\<rparr>)"
  by code_simp

text \<open>
  C6 says that \<open>tselect\<close> has its old value after every call of
  \<^verbatim>\<open>riscv_breakwatch_set\<close>, the failing ones included. The function saves \<open>tselect\<close> and
  writes it back at its end, but both \<^verbatim>\<open>return -1\<close> of the walk leave the function
  before that. What is proved here is what the code does when every trigger is taken:
  \<open>tselect\<close> reads 0 before the call, triggers 0 and 1 are of type 2 and enabled
  (\<open>tdata1 = 0x2800107c\<close>), and index 2 reads back with type 0. The call returns \<open>-1\<close>;
  the last CSR write stub it ran set \<open>tselect\<close> (\<open>0x7a0\<close>) to 2, and no stub writes the
  saved 0 back.
\<close>

theorem breakwatch_set_failure_leaves_tselect:
  "riscv_breakwatch_set (scripted [(41, 0xa00041f0), (63, 4), (73, 0xa00041f0), (95, 8)]) dtm0 bw_exec \<noteq> None \<and>
   fst (the (riscv_breakwatch_set (scripted [(41, 0xa00041f0), (63, 4), (73, 0xa00041f0), (95, 8)]) dtm0 bw_exec)) = (- 1, bw_exec) \<and>
   dbus_log (snd (the (riscv_breakwatch_set (scripted [(41, 0xa00041f0), (63, 4), (73, 0xa00041f0), (95, 8)]) dtm0 bw_exec))) =
     [DbusWrite 0x0 0x7a002473, DbusWrite 0x1 0x40802623,
      DbusWrite 0x2 0x23fc0006f, DbusRead 0x3 0x0, DbusWrite 0x0 0x40c02403,
      DbusWrite 0x1 0x7a041073, DbusWrite 0x2 0x3fc0006f,
      DbusWrite 0x3 0x200000000, DbusRead 0x4 0x0, DbusWrite 0x0 0x7a002473,
      DbusWrite 0x1 0x40802623, DbusWrite 0x2 0x23fc0006f, DbusRead 0x3 0x0,
      DbusWrite 0x0 0x7a102473, DbusWrite 0x1 0x40802623,
      DbusWrite 0x2 0x23fc0006f, DbusRead 0x3 0x2800107c, DbusWrite 0x0 0x40c02403,
      DbusWrite 0x1 0x7a041073, DbusWrite 0x2 0x3fc0006f,
      DbusWrite 0x3 0x200000001, DbusRead 0x4 0x0, DbusWrite 0x0 0x7a002473,
      DbusWrite 0x1 0x40802623, DbusWrite 0x2 0x23fc0006f, DbusRead 0x3 0x1,
      DbusWrite 0x0 0x7a102473, DbusWrite 0x1 0x40802623,
      DbusWrite 0x2 0x23fc0006f, DbusRead 0x3 0x2800107c, DbusWrite 0x0 0x40c02403,
      DbusWrite 0x1 0x7a041073, DbusWrite 0x2 0x3fc0006f,
      DbusWrite 0x3 0x200000002, DbusRead 0x4 0x0, DbusWrite 0x0 0x7a002473,
      DbusWrite 0x1 0x40802623, DbusWrite 0x2 0x23fc0006f, DbusRead 0x3 0x2,
      DbusWrite 0x0 0x7a102473, DbusWrite 0x1 0x40802623,
      DbusWrite 0x2 0x23fc0006f, DbusRead 0x3 0x0]"
  by (simp add: bw_exec_full)

end
